theory Spec2Isabelle
  imports Main "HOL-Library.Word"
begin

section \<open>The rotating log writer of logr\<close>

text \<open>
  The repository holds three iterations of the logger.  The file \<^verbatim>\<open>logr.go\<close> carries
  two of them: the iteration with a \<^verbatim>\<open>bufio.Writer\<close> (lines 1 to 491), modelled under the
  source's names, and the iteration with an \<^verbatim>\<open>io.MultiWriter\<close> and an error handler
  (lines 492 to 1012), modelled under names ending in \<open>_mw\<close>.  The third, unbuffered
  iteration is \<^verbatim>\<open>unnamed/part_001\<close>; its definitions end in \<open>_p1\<close>.

  The operating system is a value: the log directory is an association list from file
  names to files, open descriptors are a partial map, and every system call asks the
  environment whether it fails.  All of the logger's paths are
  \<^verbatim>\<open>filepath.Join(LogDir, name)\<close>, so a file is named by \<open>name\<close> alone.
\<close>

subsection \<open>Values\<close>

type_synonym bytes = string
type_synonym int64 = "64 word"
type_synonym fd = nat

text \<open>\<^verbatim>\<open>type LogLevel int\<close> with the constants of the \<^verbatim>\<open>iota\<close> block.\<close>

type_synonym LogLevel = int

definition DEBUG :: LogLevel where "DEBUG = 0"
definition INFO :: LogLevel where "INFO = 1"
definition WARN :: LogLevel where "WARN = 2"
definition ERROR :: LogLevel where "ERROR = 3"
definition FATAL :: LogLevel where "FATAL = 4"

definition LogLevel_String :: "LogLevel \<Rightarrow> string" where
  "LogLevel_String l =
     (if l = DEBUG then ''DEBUG''
      else if l = INFO then ''INFO''
      else if l = WARN then ''WARN''
      else if l = ERROR then ''ERROR''
      else if l = FATAL then ''FATAL''
      else ''UNKNOWN'')"

definition newline :: string where
  "newline = [CHR 0x0A]"

text \<open>\<^verbatim>\<open>%d\<close> of a count.\<close>

function showNat :: "nat \<Rightarrow> string" where
  "showNat n =
     (if n < 10 then [char_of (48 + n)]
      else showNat (n div 10) @ [char_of (48 + n mod 10)])"
  by pat_completeness auto
termination
  by (relation "measure id") auto

declare showNat.simps [simp del]

text \<open>
  The system calls the logger makes, by call site.  An \<open>error\<close> is either what a call
  returned or a \<^verbatim>\<open>fmt.Errorf("<text>: %v", err)\<close> around another error.
\<close>

datatype sysop =
  OpMkdirAll | OpStat | OpOpenFile | OpWrite | OpSync | OpClose
  | OpOpenSrc | OpCreate | OpCopy | OpGzClose
  | OpRemove | OpRename | OpSink | OpReadDir | OpInfo

datatype error =
  ErrNotExist | ErrClosed | ErrShortWrite | ErrIsDir | ErrIO sysop
  | Errorf string error | ErrPlain string

datatype sinkref = Stdout | Custom

text \<open>
  \<open>Config\<close> is the struct of the MultiWriter iteration, whose fields include those of the
  two older ones.  \<open>Output\<close> and \<open>ErrorHandler\<close> say whether the field is non-nil:
  what a caller's writer or callback does is the environment's business.
  \<open>MaxBackups\<close> is a Go \<^verbatim>\<open>int\<close>, 64 bits wide on the usual targets;
  \<open>MaxAge\<close> and \<open>SyncInterval\<close> are \<^verbatim>\<open>time.Duration\<close>, an \<^verbatim>\<open>int64\<close> of nanoseconds.
\<close>

record Config =
  LogDir :: string
  FileName :: string
  MaxSize :: int64
  MaxAge :: int64
  MaxBackups :: int64
  Level :: LogLevel
  EnableStdout :: bool
  SyncInterval :: int64
  Compress :: bool
  JSONFormat :: bool
  Output :: bool
  ErrorHandler :: bool

text \<open>A \<^verbatim>\<open>bufio.Writer\<close>: the descriptor it wraps, the bytes it holds, its sticky error.\<close>

record bufw =
  wfd :: fd
  pending :: bytes
  werr :: "error option"

text \<open>The result of \<^verbatim>\<open>io.MultiWriter(fileWriter, second)\<close>.\<close>

record mwriter =
  fileWriter :: bufw
  second :: "sinkref option"

datatype task = CleanupRoutine | SyncRoutine

text \<open>
  \<open>Logger\<close>: \<open>writer\<close> is the field of the bufio iteration, \<open>out\<close> that of the
  MultiWriter iteration.  \<open>stopChan\<close> is \<open>True\<close> once the channel is closed;
  \<open>routines\<close> records the goroutines \<^verbatim>\<open>NewLogger\<close> started.
\<close>

record Logger =
  config :: Config
  file_h :: "fd option"
  writer :: "bufw option"
  out :: "mwriter option"
  currentSize :: int64
  syncTicker :: "int64 option"
  stopChan :: bool
  routines :: "task list"

subsection \<open>The file system and the process streams\<close>

record fnode =
  isDir :: bool
  content :: bytes
  modTime :: int

datatype event = Rotation | Wrote nat | Synced fd

text \<open>
  \<open>disk\<close> holds the entries of the log directory, each name once, in no particular
  order.  \<open>openf\<close> maps each open descriptor to the name it was opened at (the logger
  closes its descriptor before it renames or removes the file).  \<open>stderr\<close> and
  \<open>handled\<close> collect the reported errors, \<open>stdout\<close> and \<open>sink\<close> what the secondary
  outputs received.  \<open>trace\<close> is an observation only: it records, in order, each rotation,
  each write counted into \<open>currentSize\<close> and each successful \<^verbatim>\<open>Sync\<close>.
\<close>

record world =
  disk :: "(string \<times> fnode) list"
  openf :: "fd \<Rightarrow> string option"
  nextfd :: fd
  stderr :: "error list"
  handled :: "error list"
  stdout :: "bytes list"
  sink :: "bytes list"
  trace :: "event list"

text \<open>
  What the program cannot decide: which calls fail (\<open>fails op name\<close>), how many bytes a
  failing write lets through, the clock (nanoseconds), \<^verbatim>\<open>time.Now().Format(layout)\<close>,
  the gzip encoder and the JSON encoder.
\<close>

record env =
  fails :: "sysop \<Rightarrow> string \<Rightarrow> bool"
  short :: nat
  now :: int
  timeFormat :: "string \<Rightarrow> string"
  gzip :: "bytes \<Rightarrow> bytes"
  jsonEncode :: "string \<Rightarrow> string \<Rightarrow> string \<Rightarrow> error + bytes"

definition lookup :: "world \<Rightarrow> string \<Rightarrow> fnode option" where
  "lookup w p = map_of (disk w) p"

definition put :: "string \<Rightarrow> fnode \<Rightarrow> (string \<times> fnode) list \<Rightarrow> (string \<times> fnode) list" where
  "put p n d =
     (if p \<in> fst ` set d then map (\<lambda>(q, m). if q = p then (q, n) else (q, m)) d
      else d @ [(p, n)])"

definition unlink :: "string \<Rightarrow> (string \<times> fnode) list \<Rightarrow> (string \<times> fnode) list" where
  "unlink p d = filter (\<lambda>(q, m). q \<noteq> p) d"

definition eprint :: "error \<Rightarrow> world \<Rightarrow> world" where
  "eprint err w = w\<lparr>stderr := stderr w @ [err]\<rparr>"

definition os_Stat :: "env \<Rightarrow> string \<Rightarrow> world \<Rightarrow> error + nat" where
  "os_Stat e p w =
     (if fails e OpStat p then Inl (ErrIO OpStat)
      else case lookup w p of
        None \<Rightarrow> Inl ErrNotExist
      | Some n \<Rightarrow> Inr (length (content n)))"

text \<open>Whether a name is that of a directory.\<close>

definition isDirectory :: "world \<Rightarrow> string \<Rightarrow> bool" where
  "isDirectory w p = (case lookup w p of None \<Rightarrow> False | Some n \<Rightarrow> isDir n)"

text \<open>\<^verbatim>\<open>os.OpenFile(p, O_CREATE|O_WRONLY|O_APPEND, 0644)\<close>\<close>

definition os_OpenFile :: "env \<Rightarrow> string \<Rightarrow> world \<Rightarrow> (error + fd) \<times> world" where
  "os_OpenFile e p w =
     (if fails e OpOpenFile p then (Inl (ErrIO OpOpenFile), w)
      else case lookup w p of
        None \<Rightarrow>
          (Inr (nextfd w),
           w\<lparr>disk := disk w @ [(p, \<lparr>isDir = False, content = [], modTime = now e\<rparr>)],
             openf := (openf w)(nextfd w \<mapsto> p), nextfd := Suc (nextfd w)\<rparr>)
      | Some n \<Rightarrow>
          if isDir n then (Inl ErrIsDir, w)
          else (Inr (nextfd w),
                w\<lparr>openf := (openf w)(nextfd w \<mapsto> p), nextfd := Suc (nextfd w)\<rparr>))"

definition append_to :: "env \<Rightarrow> string \<Rightarrow> bytes \<Rightarrow> world \<Rightarrow> world" where
  "append_to e p bs w =
     w\<lparr>disk := map (\<lambda>(q, m). if q = p then (q, m\<lparr>content := content m @ bs, modTime := now e\<rparr>)
                             else (q, m)) (disk w)\<rparr>"

text \<open>\<^verbatim>\<open>(*os.File).Write\<close>: the count of bytes written and the error.\<close>

definition file_Write :: "env \<Rightarrow> fd \<Rightarrow> bytes \<Rightarrow> world \<Rightarrow> (nat \<times> error option) \<times> world" where
  "file_Write e f bs w =
     (case openf w f of
        None \<Rightarrow> ((0, Some ErrClosed), w)
      | Some p \<Rightarrow>
          if fails e OpWrite p
          then ((min (short e) (length bs), Some (ErrIO OpWrite)),
                append_to e p (take (short e) bs) w)
          else ((length bs, None), append_to e p bs w))"

definition file_Sync :: "env \<Rightarrow> fd \<Rightarrow> world \<Rightarrow> error option \<times> world" where
  "file_Sync e f w =
     (case openf w f of
        None \<Rightarrow> (Some ErrClosed, w)
      | Some p \<Rightarrow>
          if fails e OpSync p then (Some (ErrIO OpSync), w)
          else (None, w\<lparr>trace := trace w @ [Synced f]\<rparr>))"

definition file_Close :: "env \<Rightarrow> fd \<Rightarrow> world \<Rightarrow> error option \<times> world" where
  "file_Close e f w =
     (case openf w f of
        None \<Rightarrow> (Some ErrClosed, w)
      | Some p \<Rightarrow>
          (if fails e OpClose p then Some (ErrIO OpClose) else None,
           w\<lparr>openf := (openf w)(f := None)\<rparr>))"

definition os_Remove :: "env \<Rightarrow> string \<Rightarrow> world \<Rightarrow> error option \<times> world" where
  "os_Remove e p w =
     (if fails e OpRemove p then (Some (ErrIO OpRemove), w)
      else case lookup w p of
        None \<Rightarrow> (Some ErrNotExist, w)
      | Some n \<Rightarrow> (None, w\<lparr>disk := unlink p (disk w)\<rparr>))"

text \<open>\<^verbatim>\<open>os.Rename\<close> replaces a file that already has the new name.\<close>

definition os_Rename :: "env \<Rightarrow> string \<Rightarrow> string \<Rightarrow> world \<Rightarrow> error option \<times> world" where
  "os_Rename e p q w =
     (if fails e OpRename p then (Some (ErrIO OpRename), w)
      else case lookup w p of
        None \<Rightarrow> (Some ErrNotExist, w)
      | Some n \<Rightarrow> (None, w\<lparr>disk := put q n (unlink p (disk w))\<rparr>))"

subsection \<open>Retention: \<^verbatim>\<open>getLogFiles\<close> and \<^verbatim>\<open>cleanup\<close>\<close>

record FileInfo =
  fiName :: string
  fiModTime :: int
  fiSize :: nat

definition HasPrefix :: "string \<Rightarrow> string \<Rightarrow> bool" where
  "HasPrefix s p = (take (length p) s = p)"

definition HasSuffix :: "string \<Rightarrow> string \<Rightarrow> bool" where
  "HasSuffix s x = (length x \<le> length s \<and> drop (length s - length x) s = x)"

definition isLogName :: "string \<Rightarrow> string \<Rightarrow> bool" where
  "isLogName prefix name =
     (name = prefix @ ''.log'' \<or>
      (HasPrefix name (prefix @ ''_'') \<and> (HasSuffix name ''.log'' \<or> HasSuffix name ''.log.gz'')))"

text \<open>The loop of \<^verbatim>\<open>getLogFiles\<close> over the directory entries.\<close>

fun logFilesOf :: "env \<Rightarrow> string \<Rightarrow> (string \<times> fnode) list \<Rightarrow> FileInfo list" where
  "logFilesOf e prefix [] = []"
| "logFilesOf e prefix ((name, n) # es) =
     (if isDir n then logFilesOf e prefix es
      else if isLogName prefix name then
        (if fails e OpInfo name then logFilesOf e prefix es
         else \<lparr>fiName = name, fiModTime = modTime n, fiSize = length (content n)\<rparr>
              # logFilesOf e prefix es)
      else logFilesOf e prefix es)"

text \<open>
  \<^verbatim>\<open>os.ReadDir\<close> returns the entries sorted by file name; Go compares strings byte by
  byte.
\<close>

fun name_less :: "string \<Rightarrow> string \<Rightarrow> bool" where
  "name_less [] [] = False"
| "name_less [] (d # t) = True"
| "name_less (c # s) [] = False"
| "name_less (c # s) (d # t) =
     ((of_char c :: nat) < of_char d \<or> (c = d \<and> name_less s t))"

fun insertByName :: "string \<times> fnode \<Rightarrow> (string \<times> fnode) list \<Rightarrow> (string \<times> fnode) list" where
  "insertByName x [] = [x]"
| "insertByName x (y # ys) =
     (if name_less (fst y) (fst x) then y # insertByName x ys else x # y # ys)"

definition os_ReadDir :: "env \<Rightarrow> string \<Rightarrow> world \<Rightarrow> error + (string \<times> fnode) list" where
  "os_ReadDir e dir w =
     (if fails e OpReadDir dir then Inl (ErrIO OpReadDir)
      else Inr (foldr insertByName (disk w) []))"

definition getLogFiles :: "env \<Rightarrow> Logger \<Rightarrow> world \<Rightarrow> error + FileInfo list" where
  "getLogFiles e l w =
     (case os_ReadDir e (LogDir (config l)) w of
        Inl err \<Rightarrow> Inl err
      | Inr dirEntries \<Rightarrow> Inr (logFilesOf e (FileName (config l)) dirEntries))"

text \<open>
  \<^verbatim>\<open>sort.Slice(files, func(i, j) { return files[i].ModTime().After(files[j].ModTime()) })\<close>:
  newest first.  \<^verbatim>\<open>sort.Slice\<close> does not promise an order among files of equal time.  The
  library sorts a short slice (at most 12 elements, since Go 1.19) by insertion, which
  leaves them in the order \<^verbatim>\<open>os.ReadDir\<close> gave them; \<open>sortNewestFirst\<close> is that insertion
  sort, on slices of any length.
\<close>

fun insertNewest :: "FileInfo \<Rightarrow> FileInfo list \<Rightarrow> FileInfo list" where
  "insertNewest f [] = [f]"
| "insertNewest f (g # gs) =
     (if fiModTime g \<le> fiModTime f then f # g # gs else g # insertNewest f gs)"

definition sortNewestFirst :: "FileInfo list \<Rightarrow> FileInfo list" where
  "sortNewestFirst fs = foldr insertNewest fs []"

text \<open>\<^verbatim>\<open>Time.Sub\<close> saturates at the least and the greatest \<^verbatim>\<open>Duration\<close>.\<close>

definition maxDuration :: int where
  "maxDuration = 9223372036854775807"

definition time_Sub :: "int \<Rightarrow> int \<Rightarrow> int" where
  "time_Sub t u =
     (if t - u > maxDuration then maxDuration
      else if t - u < - maxDuration - 1 then - maxDuration - 1
      else t - u)"

text \<open>
  The body of \<^verbatim>\<open>for i, file := range files\<close>, the same in the three iterations but for
  how a failed \<^verbatim>\<open>os.Remove\<close> is reported (\<open>rep\<close>).  \<open>i\<close> is the index \<^verbatim>\<open>range\<close>
  gives, \<open>deleted\<close> the counter.
\<close>

fun cleanupLoop ::
  "(string \<Rightarrow> error \<Rightarrow> world \<Rightarrow> world) \<Rightarrow> env \<Rightarrow> Config \<Rightarrow> nat \<Rightarrow> FileInfo list
     \<Rightarrow> world \<times> nat \<Rightarrow> world \<times> nat" where
  "cleanupLoop rep e c i [] (w, deleted) = (w, deleted)"
| "cleanupLoop rep e c i (f # fs) (w, deleted) =
     (if fiName f = FileName c @ ''.log'' then cleanupLoop rep e c (Suc i) fs (w, deleted)
      else if (0 < sint (MaxAge c) \<and> sint (MaxAge c) < time_Sub (now e) (fiModTime f))
              \<or> (0 < sint (MaxBackups c) \<and> sint (MaxBackups c) \<le> int i)
      then (case os_Remove e (fiName f) w of
              (Some err, w') \<Rightarrow> cleanupLoop rep e c (Suc i) fs (rep (fiName f) err w', deleted)
            | (None, w') \<Rightarrow> cleanupLoop rep e c (Suc i) fs (w', Suc deleted))
      else cleanupLoop rep e c (Suc i) fs (w, deleted))"

subsection \<open>The buffered writer\<close>

text \<open>
  \<^verbatim>\<open>bufio.NewWriter\<close> makes a buffer of 4096 bytes.  \<open>bufio_Flush\<close> and
  \<open>bufio_WriteString\<close> follow the library's \<^verbatim>\<open>Flush\<close> and \<^verbatim>\<open>WriteString\<close>
  (\<^verbatim>\<open>Write\<close> takes the same steps on an \<^verbatim>\<open>*os.File\<close>): a string that does not fit
  is written through, directly when the buffer is empty, else after the buffer has been
  filled and flushed; an error stays in the writer.
\<close>

definition bufSize :: nat where
  "bufSize = 4096"

definition bufio_Flush :: "env \<Rightarrow> bufw \<Rightarrow> world \<Rightarrow> error option \<times> bufw \<times> world" where
  "bufio_Flush e b w =
     (case werr b of
        Some x \<Rightarrow> (Some x, b, w)
      | None \<Rightarrow>
          if pending b = [] then (None, b, w)
          else (case file_Write e (wfd b) (pending b) w of
                  ((n, err), w') \<Rightarrow>
                    (case (if n < length (pending b) \<and> err = None then Some ErrShortWrite else err) of
                       Some x \<Rightarrow> (Some x, b\<lparr>pending := drop n (pending b), werr := Some x\<rparr>, w')
                     | None \<Rightarrow> (None, b\<lparr>pending := []\<rparr>, w'))))"

function bufio_loop ::
  "env \<Rightarrow> bufw \<Rightarrow> bytes \<Rightarrow> nat \<Rightarrow> world \<Rightarrow> (bufw \<times> bytes \<times> nat) \<times> world" where
  "bufio_loop e b s nn w =
     (if bufSize - length (pending b) < length s \<and> werr b = None then
        (if pending b = [] then
           (case file_Write e (wfd b) s w of
              ((n, err), w') \<Rightarrow> bufio_loop e (b\<lparr>werr := err\<rparr>) (drop n s) (nn + n) w')
         else
           (case bufio_Flush e
                   (b\<lparr>pending := pending b @ take (bufSize - length (pending b)) s\<rparr>) w of
              (ferr, b', w') \<Rightarrow>
                bufio_loop e b' (drop (bufSize - length (pending b)) s)
                  (nn + min (bufSize - length (pending b)) (length s)) w'))
      else ((b, s, nn), w))"
  by pat_completeness auto
termination
  by (relation "measures [\<lambda>(e, b, s, nn, w). if werr b = None then 1 else 0,
                          \<lambda>(e, b, s, nn, w). length s,
                          \<lambda>(e, b, s, nn, w). length (pending b)]")
     (auto simp: file_Write_def bufio_Flush_def split: option.splits if_splits)

declare bufio_loop.simps [simp del]

definition bufio_WriteString ::
  "env \<Rightarrow> bufw \<Rightarrow> bytes \<Rightarrow> world \<Rightarrow> (nat \<times> error option) \<times> bufw \<times> world" where
  "bufio_WriteString e b s w =
     (case bufio_loop e b s 0 w of
        ((b', s', nn), w') \<Rightarrow>
          (case werr b' of
             Some x \<Rightarrow> ((nn, Some x), b', w')
           | None \<Rightarrow>
               ((nn + min (bufSize - length (pending b')) (length s'), None),
                b'\<lparr>pending := pending b' @ take (bufSize - length (pending b')) s'\<rparr>, w')))"

subsection \<open>Secondary outputs\<close>

definition deliver :: "sinkref \<Rightarrow> bytes \<Rightarrow> world \<Rightarrow> world" where
  "deliver s bs w =
     (case s of
        Stdout \<Rightarrow> w\<lparr>stdout := stdout w @ [bs]\<rparr>
      | Custom \<Rightarrow> w\<lparr>sink := sink w @ [bs]\<rparr>)"

definition sinkName :: "sinkref \<Rightarrow> string" where
  "sinkName s = (case s of Stdout \<Rightarrow> ''stdout'' | Custom \<Rightarrow> ''output'')"

text \<open>\<^verbatim>\<open>Write\<close> on \<^verbatim>\<open>os.Stdout\<close> or on the caller's \<^verbatim>\<open>io.Writer\<close>.\<close>

definition sink_Write :: "env \<Rightarrow> sinkref \<Rightarrow> bytes \<Rightarrow> world \<Rightarrow> (nat \<times> error option) \<times> world" where
  "sink_Write e s bs w =
     (if fails e OpSink (sinkName s)
      then ((min (short e) (length bs), Some (ErrIO OpSink)), deliver s (take (short e) bs) w)
      else ((length bs, None), deliver s bs w))"

text \<open>\<^verbatim>\<open>fmt.Print(logMessage)\<close>: the result is dropped.\<close>

definition fmt_Print :: "env \<Rightarrow> bytes \<Rightarrow> world \<Rightarrow> world" where
  "fmt_Print e bs w = snd (sink_Write e Stdout bs w)"

subsection \<open>The bufio iteration (\<^verbatim>\<open>logr.go\<close>, lines 1 to 491)\<close>


definition getCurrentLogPath :: "Logger \<Rightarrow> string" where
  "getCurrentLogPath l = FileName (config l) @ ''.log''"

definition getBackupLogPath :: "env \<Rightarrow> Logger \<Rightarrow> string" where
  "getBackupLogPath e l =
     (if Compress (config l)
      then FileName (config l) @ ''_'' @ timeFormat e ''20060102_150405'' @ ''.log.gz''
      else FileName (config l) @ ''_'' @ timeFormat e ''20060102_150405'' @ ''.log'')"

definition openLogFile :: "env \<Rightarrow> Logger \<Rightarrow> world \<Rightarrow> error option \<times> Logger \<times> world" where
  "openLogFile e l w =
     (case os_Stat e (getCurrentLogPath l) w of
        Inl err \<Rightarrow>
          if err = ErrNotExist then
            (case os_OpenFile e (getCurrentLogPath l) w of
               (Inl oerr, w') \<Rightarrow>
                 (Some (Errorf ''failed to open log file'' oerr), l\<lparr>currentSize := 0\<rparr>, w')
             | (Inr f, w') \<Rightarrow>
                 (None,
                  l\<lparr>currentSize := 0, file_h := Some f,
                    writer := Some \<lparr>wfd = f, pending = [], werr = None\<rparr>\<rparr>, w'))
          else (Some (Errorf ''failed to get log file info'' err), l, w)
      | Inr n \<Rightarrow>
          (case os_OpenFile e (getCurrentLogPath l) w of
             (Inl oerr, w') \<Rightarrow>
               (Some (Errorf ''failed to open log file'' oerr), l\<lparr>currentSize := of_nat n\<rparr>, w')
           | (Inr f, w') \<Rightarrow>
               (None,
                l\<lparr>currentSize := of_nat n, file_h := Some f,
                  writer := Some \<lparr>wfd = f, pending = [], werr = None\<rparr>\<rparr>, w')))"

text \<open>
  \<^verbatim>\<open>compressFile\<close>.  \<^verbatim>\<open>os.Create\<close> truncates or creates the archive; a failed
  \<^verbatim>\<open>io.Copy\<close> leaves a part of the stream.  The deferred \<^verbatim>\<open>gzipWriter.Close()\<close>
  writes what the encoder still holds; its error is not returned, so when it fails
  (\<open>OpGzClose\<close>) the function returns \<^verbatim>\<open>nil\<close> over a part of the stream.
\<close>

definition compressFile :: "env \<Rightarrow> string \<Rightarrow> string \<Rightarrow> world \<Rightarrow> error option \<times> world" where
  "compressFile e srcPath dstPath w =
     (if fails e OpOpenSrc srcPath
      then (Some (Errorf ''failed to open source file for compression'' (ErrIO OpOpenSrc)), w)
      else case lookup w srcPath of
        None \<Rightarrow> (Some (Errorf ''failed to open source file for compression'' ErrNotExist), w)
      | Some n \<Rightarrow>
          if fails e OpCreate dstPath
          then (Some (Errorf ''failed to create gzip file'' (ErrIO OpCreate)), w)
          else if fails e OpCopy srcPath \<or> isDir n
          then (Some (Errorf ''failed to copy file content to gzip writer'' (ErrIO OpCopy)),
                w\<lparr>disk := put dstPath
                   \<lparr>isDir = False, content = take (short e) (gzip e (content n)), modTime = now e\<rparr>
                   (disk w)\<rparr>)
          else if fails e OpGzClose dstPath
          then (None,
                w\<lparr>disk := put dstPath
                   \<lparr>isDir = False, content = take (short e) (gzip e (content n)), modTime = now e\<rparr>
                   (disk w)\<rparr>)
          else (None,
                w\<lparr>disk := put dstPath
                   \<lparr>isDir = False, content = gzip e (content n), modTime = now e\<rparr> (disk w)\<rparr>))"

text \<open>The first two steps of \<^verbatim>\<open>rotateFile\<close>: flush the writer, close the file.\<close>

definition flushForRotation :: "env \<Rightarrow> Logger \<Rightarrow> world \<Rightarrow> Logger \<times> world" where
  "flushForRotation e l w =
     (case writer l of
        None \<Rightarrow> (l, w)
      | Some b \<Rightarrow>
          (case bufio_Flush e b w of
             (None, b', w') \<Rightarrow> (l\<lparr>writer := Some b'\<rparr>, w')
           | (Some err, b', w') \<Rightarrow>
               (l\<lparr>writer := Some b'\<rparr>,
                eprint (Errorf ''Warning: failed to flush writer during rotation'' err) w')))"

definition closeForRotation :: "env \<Rightarrow> Logger \<Rightarrow> world \<Rightarrow> world" where
  "closeForRotation e l w =
     (case file_h l of
        None \<Rightarrow> w
      | Some f \<Rightarrow>
          (case file_Close e f w of
             (None, w') \<Rightarrow> w'
           | (Some err, w') \<Rightarrow>
               eprint (Errorf ''Warning: failed to close file during rotation'' err) w'))"

definition rotateFile :: "env \<Rightarrow> Logger \<Rightarrow> world \<Rightarrow> error option \<times> Logger \<times> world" where
  "rotateFile e l w =
     (case flushForRotation e l (w\<lparr>trace := trace w @ [Rotation]\<rparr>) of
        (l1, w1) \<Rightarrow>
          if Compress (config l1) then
            (case compressFile e (getCurrentLogPath l1) (getBackupLogPath e l1)
                    (closeForRotation e l1 w1) of
               (Some err, w3) \<Rightarrow>
                 (case openLogFile e l1 w3 of
                    (r, l2, w4) \<Rightarrow> (Some (Errorf ''failed to compress log file'' err), l2, w4))
             | (None, w3) \<Rightarrow>
                 (case os_Remove e (getCurrentLogPath l1) w3 of
                    (None, w4) \<Rightarrow> openLogFile e l1 w4
                  | (Some rerr, w4) \<Rightarrow>
                      openLogFile e l1
                        (eprint (Errorf
                           ''Warning: failed to remove original log file after compression''
                           rerr) w4)))
          else
            (case os_Rename e (getCurrentLogPath l1) (getBackupLogPath e l1)
                    (closeForRotation e l1 w1) of
               (Some err, w3) \<Rightarrow>
                 (case openLogFile e l1 w3 of
                    (r, l2, w4) \<Rightarrow> (Some (Errorf ''failed to rename log file'' err), l2, w4))
             | (None, w3) \<Rightarrow> openLogFile e l1 w3))"

definition shouldRotate :: "Logger \<Rightarrow> nat \<Rightarrow> bool" where
  "shouldRotate l messageSize =
     (0 <s MaxSize (config l) \<and> MaxSize (config l) <s currentSize l + of_nat messageSize)"

text \<open>\<^verbatim>\<open>fmt.Sprintf("[%s] [%s] %s\n", timestamp, level.String(), message)\<close>\<close>

definition formatLine :: "env \<Rightarrow> LogLevel \<Rightarrow> string \<Rightarrow> bytes" where
  "formatLine e level message =
     ''['' @ timeFormat e ''2006-01-02 15:04:05.000'' @ ''] ['' @ LogLevel_String level
       @ ''] '' @ message @ newline"

text \<open>
  \<^verbatim>\<open>writeLog\<close> from the write to the buffered writer on (line 249).
\<close>

definition writeBuffered :: "env \<Rightarrow> Logger \<Rightarrow> bytes \<Rightarrow> world \<Rightarrow> Logger \<times> world" where
  "writeBuffered e l logMessage w =
     (case writer l of
        None \<Rightarrow> (l, if EnableStdout (config l) then fmt_Print e logMessage w else w)
      | Some b \<Rightarrow>
          (case bufio_WriteString e b logMessage w of
             ((n, Some err), b', w') \<Rightarrow>
               (l\<lparr>writer := Some b'\<rparr>, eprint (Errorf ''failed to write to log file'' err) w')
           | ((n, None), b', w') \<Rightarrow>
               (l\<lparr>writer := Some b', currentSize := currentSize l + of_nat n\<rparr>,
                if EnableStdout (config l)
                then fmt_Print e logMessage (w'\<lparr>trace := trace w' @ [Wrote n]\<rparr>)
                else w'\<lparr>trace := trace w' @ [Wrote n]\<rparr>)))"

definition writeLog :: "env \<Rightarrow> Logger \<Rightarrow> LogLevel \<Rightarrow> string \<Rightarrow> world \<Rightarrow> Logger \<times> world" where
  "writeLog e l level message w =
     (if level < Level (config l) then (l, w)
      else if shouldRotate l (length (formatLine e level message)) then
        (case rotateFile e l w of
           (Some err, l1, w1) \<Rightarrow> (l1, eprint (Errorf ''log rotation failed'' err) w1)
         | (None, l1, w1) \<Rightarrow> writeBuffered e l1 (formatLine e level message) w1)
      else writeBuffered e l (formatLine e level message) w)"

text \<open>
  A call either returns or panics: \<^verbatim>\<open>close(l.stopChan)\<close> panics on a channel that is
  already closed.
\<close>

datatype 'a call = Panic string | Return 'a

definition Close :: "env \<Rightarrow> Logger \<Rightarrow> world \<Rightarrow> error option call \<times> Logger \<times> world" where
  "Close e l w =
     (if stopChan l then (Panic ''close of closed channel'', l, w)
      else
        (case (case writer l of
                 None \<Rightarrow> (l\<lparr>stopChan := True\<rparr>, w)
               | Some b \<Rightarrow>
                   (case bufio_Flush e b w of
                      (ferr, b', w') \<Rightarrow> (l\<lparr>stopChan := True, writer := Some b'\<rparr>, w'))) of
           (l1, w1) \<Rightarrow>
             (case file_h l1 of
                None \<Rightarrow> (Return None, l1, w1)
              | Some f \<Rightarrow>
                  (case file_Sync e f w1 of
                     (serr, w2) \<Rightarrow>
                       (case file_Close e f w2 of
                          (cerr, w3) \<Rightarrow> (Return cerr, l1, w3))))))"

definition Sync :: "env \<Rightarrow> Logger \<Rightarrow> world \<Rightarrow> error option \<times> Logger \<times> world" where
  "Sync e l w =
     (case (case writer l of
              None \<Rightarrow> (None, l, w)
            | Some b \<Rightarrow>
                (case bufio_Flush e b w of
                   (ferr, b', w') \<Rightarrow> (ferr, l\<lparr>writer := Some b'\<rparr>, w'))) of
        (Some err, l1, w1) \<Rightarrow> (Some err, l1, w1)
      | (None, l1, w1) \<Rightarrow>
          (case file_h l1 of
             None \<Rightarrow> (None, l1, w1)
           | Some f \<Rightarrow> (case file_Sync e f w1 of (serr, w2) \<Rightarrow> (serr, l1, w2))))"


text \<open>
  \<^verbatim>\<open>cleanup\<close> (line 355).  \<^verbatim>\<open>fmt.Printf\<close> writes the count to stdout; its result is
  dropped.
\<close>

definition cleanup :: "env \<Rightarrow> Logger \<Rightarrow> world \<Rightarrow> world" where
  "cleanup e l w =
     (case getLogFiles e l w of
        Inl err \<Rightarrow> eprint (Errorf ''failed to get log file list for cleanup'' err) w
      | Inr files \<Rightarrow>
          (case cleanupLoop
                  (\<lambda>p err. eprint (Errorf (''failed to delete old log file '' @ p) err))
                  e (config l) 0 (sortNewestFirst files) (w, 0) of
             (w', deleted) \<Rightarrow>
               if 0 < deleted
               then fmt_Print e (''cleaned up '' @ showNat deleted @ '' old log files'' @ newline) w'
               else w'))"

subsection \<open>The MultiWriter iteration (\<^verbatim>\<open>logr.go\<close>, lines 492 to 1012)\<close>

text \<open>\<^verbatim>\<open>handleError\<close>: the caller's callback if there is one, else stderr.\<close>

definition handleError :: "Logger \<Rightarrow> error \<Rightarrow> world \<Rightarrow> world" where
  "handleError l err w =
     (if ErrorHandler (config l) then w\<lparr>handled := handled w @ [err]\<rparr>
      else eprint (Errorf ''logr error'' err) w)"

definition openLogFile_mw :: "env \<Rightarrow> Logger \<Rightarrow> world \<Rightarrow> error option \<times> Logger \<times> world" where
  "openLogFile_mw e l w =
     (case os_Stat e (getCurrentLogPath l) w of
        Inl err \<Rightarrow>
          if err = ErrNotExist then
            (case os_OpenFile e (getCurrentLogPath l) w of
               (Inl oerr, w') \<Rightarrow>
                 (Some (Errorf ''failed to open log file'' oerr), l\<lparr>currentSize := 0\<rparr>, w')
             | (Inr f, w') \<Rightarrow>
                 (None,
                  l\<lparr>currentSize := 0, file_h := Some f,
                    out := Some \<lparr>fileWriter = \<lparr>wfd = f, pending = [], werr = None\<rparr>,
                                 second = (if Output (config l) then Some Custom
                                           else if EnableStdout (config l) then Some Stdout
                                           else None)\<rparr>\<rparr>, w'))
          else (Some (Errorf ''failed to get log file info'' err), l, w)
      | Inr n \<Rightarrow>
          (case os_OpenFile e (getCurrentLogPath l) w of
             (Inl oerr, w') \<Rightarrow>
               (Some (Errorf ''failed to open log file'' oerr), l\<lparr>currentSize := of_nat n\<rparr>, w')
           | (Inr f, w') \<Rightarrow>
               (None,
                l\<lparr>currentSize := of_nat n, file_h := Some f,
                  out := Some \<lparr>fileWriter = \<lparr>wfd = f, pending = [], werr = None\<rparr>,
                               second = (if Output (config l) then Some Custom
                                         else if EnableStdout (config l) then Some Stdout
                                         else None)\<rparr>\<rparr>, w')))"

text \<open>
  \<^verbatim>\<open>(*multiWriter).Write\<close>: each writer in turn, stopping at the first error or short
  count.
\<close>

definition multi_Write ::
  "env \<Rightarrow> mwriter \<Rightarrow> bytes \<Rightarrow> world \<Rightarrow> (nat \<times> error option) \<times> mwriter \<times> world" where
  "multi_Write e m p w =
     (case bufio_WriteString e (fileWriter m) p w of
        ((n, Some err), b', w1) \<Rightarrow> ((n, Some err), m\<lparr>fileWriter := b'\<rparr>, w1)
      | ((n, None), b', w1) \<Rightarrow>
          if n = length p then
            (case second m of
               None \<Rightarrow> ((length p, None), m\<lparr>fileWriter := b'\<rparr>, w1)
             | Some s \<Rightarrow>
                 (case sink_Write e s p w1 of
                    ((k, Some err), w2) \<Rightarrow> ((k, Some err), m\<lparr>fileWriter := b'\<rparr>, w2)
                  | ((k, None), w2) \<Rightarrow>
                      if k = length p then ((length p, None), m\<lparr>fileWriter := b'\<rparr>, w2)
                      else ((k, Some ErrShortWrite), m\<lparr>fileWriter := b'\<rparr>, w2)))
          else ((n, Some ErrShortWrite), m\<lparr>fileWriter := b'\<rparr>, w1))"

text \<open>
  \<^verbatim>\<open>rotateFile\<close>, line 706.  Its first block asserts \<^verbatim>\<open>l.out.(*io.MultiWriter)\<close> and
  asks \<^verbatim>\<open>getWriters\<close> for a \<^verbatim>\<open>*bufio.Writer\<close>.  \<^verbatim>\<open>l.out\<close> is the library's unexported
  multiWriter, which has no \<^verbatim>\<open>Writers\<close> method, so \<^verbatim>\<open>getWriters\<close> returns the
  multiWriter alone and no \<^verbatim>\<open>*bufio.Writer\<close> is found: the block flushes nothing.
\<close>

definition closeForRotation_mw :: "env \<Rightarrow> Logger \<Rightarrow> world \<Rightarrow> world" where
  "closeForRotation_mw e l w =
     (case file_h l of
        None \<Rightarrow> w
      | Some f \<Rightarrow>
          (case file_Close e f w of
             (None, w') \<Rightarrow> w'
           | (Some err, w') \<Rightarrow>
               handleError l (Errorf ''failed to close file during rotation'' err) w'))"

definition rotateFile_mw :: "env \<Rightarrow> Logger \<Rightarrow> world \<Rightarrow> error option \<times> Logger \<times> world" where
  "rotateFile_mw e l w =
     (if Compress (config l) then
        (case compressFile e (getCurrentLogPath l) (getBackupLogPath e l)
                (closeForRotation_mw e l (w\<lparr>trace := trace w @ [Rotation]\<rparr>)) of
           (Some err, w3) \<Rightarrow>
             (case openLogFile_mw e l w3 of
                (r, l2, w4) \<Rightarrow> (Some (Errorf ''failed to compress log file'' err), l2, w4))
         | (None, w3) \<Rightarrow>
             (case os_Remove e (getCurrentLogPath l) w3 of
                (None, w4) \<Rightarrow> openLogFile_mw e l w4
              | (Some rerr, w4) \<Rightarrow>
                  openLogFile_mw e l
                    (handleError l
                       (Errorf ''failed to remove original log file after compression'' rerr)
                       w4)))
      else
        (case os_Rename e (getCurrentLogPath l) (getBackupLogPath e l)
                (closeForRotation_mw e l (w\<lparr>trace := trace w @ [Rotation]\<rparr>)) of
           (Some err, w3) \<Rightarrow>
             (case openLogFile_mw e l w3 of
                (r, l2, w4) \<Rightarrow> (Some (Errorf ''failed to rename log file'' err), l2, w4))
         | (None, w3) \<Rightarrow> openLogFile_mw e l w3))"

text \<open>
  The record as \<^verbatim>\<open>writeLog\<close> renders it into \<^verbatim>\<open>buf\<close>; \<open>message\<close> stands for
  \<^verbatim>\<open>fmt.Sprintf(format, args...)\<close>.
\<close>

definition renderRecord :: "env \<Rightarrow> Logger \<Rightarrow> LogLevel \<Rightarrow> string \<Rightarrow> error + bytes" where
  "renderRecord e l level message =
     (if JSONFormat (config l)
      then jsonEncode e (timeFormat e ''2006-01-02T15:04:05.999999999Z07:00'')
             (LogLevel_String level) message
      else Inr (formatLine e level message))"

text \<open>\<^verbatim>\<open>writeLog\<close> from \<^verbatim>\<open>if l.out != nil\<close> on (line 792).\<close>

definition writeOut_mw :: "env \<Rightarrow> Logger \<Rightarrow> bytes \<Rightarrow> world \<Rightarrow> Logger \<times> world" where
  "writeOut_mw e l buf w =
     (case out l of
        None \<Rightarrow> (l, w)
      | Some m \<Rightarrow>
          (case multi_Write e m buf w of
             ((n, Some err), m', w') \<Rightarrow>
               (l\<lparr>out := Some m'\<rparr>,
                handleError l (Errorf ''failed to write to log output'' err) w')
           | ((n, None), m', w') \<Rightarrow>
               (l\<lparr>out := Some m', currentSize := currentSize l + of_nat n\<rparr>,
                w'\<lparr>trace := trace w' @ [Wrote n]\<rparr>)))"

definition writeLog_mw :: "env \<Rightarrow> Logger \<Rightarrow> LogLevel \<Rightarrow> string \<Rightarrow> world \<Rightarrow> Logger \<times> world" where
  "writeLog_mw e l level message w =
     (if level < Level (config l) then (l, w)
      else case renderRecord e l level message of
        Inl err \<Rightarrow> (l, handleError l (Errorf ''failed to encode JSON log entry'' err) w)
      | Inr buf \<Rightarrow>
          if shouldRotate l (length buf) then
            (case rotateFile_mw e l w of
               (Some err, l1, w1) \<Rightarrow> (l1, handleError l1 (Errorf ''log rotation failed'' err) w1)
             | (None, l1, w1) \<Rightarrow> writeOut_mw e l1 buf w1)
          else writeOut_mw e l buf w)"

text \<open>
  \<^verbatim>\<open>close\<close>, line 958: \<^verbatim>\<open>l.out.(io.Closer)\<close> does not hold of a multiWriter, which has
  no \<^verbatim>\<open>Close\<close> method, so only the file is closed.
\<close>

definition close_mw :: "env \<Rightarrow> Logger \<Rightarrow> world \<Rightarrow> error option \<times> world" where
  "close_mw e l w =
     (case file_h l of
        None \<Rightarrow> (None, w)
      | Some f \<Rightarrow> file_Close e f w)"

definition Close_mw :: "env \<Rightarrow> Logger \<Rightarrow> world \<Rightarrow> error option call \<times> Logger \<times> world" where
  "Close_mw e l w =
     (if stopChan l then (Panic ''close of closed channel'', l, w)
      else (case close_mw e (l\<lparr>stopChan := True\<rparr>) w of
              (cerr, w') \<Rightarrow> (Return cerr, l\<lparr>stopChan := True\<rparr>, w')))"

text \<open>
  \<^verbatim>\<open>cleanup\<close> (line 877).  It ends with \<^verbatim>\<open>l.Debug(...)\<close> while it still holds
  \<^verbatim>\<open>l.mu\<close>: \<^verbatim>\<open>writeLog\<close> returns early when \<open>DEBUG\<close> is below the configured level or
  the record cannot be encoded, and otherwise locks \<^verbatim>\<open>l.mu\<close> again, so the call never
  returns.  The result says whether the call returns, and gives the world it leaves.
\<close>

datatype outcome = Returns | Blocks

definition cleanup_mw :: "env \<Rightarrow> Logger \<Rightarrow> world \<Rightarrow> outcome \<times> world" where
  "cleanup_mw e l w =
     (case getLogFiles e l w of
        Inl err \<Rightarrow>
          (Returns, handleError l (Errorf ''failed to get log file list for cleanup'' err) w)
      | Inr files \<Rightarrow>
          (case cleanupLoop
                  (\<lambda>p err. handleError l (Errorf (''failed to delete old log file '' @ p) err))
                  e (config l) 0 (sortNewestFirst files) (w, 0) of
             (w', deleted) \<Rightarrow>
               if 0 < deleted then
                 (if DEBUG < Level (config l) then (Returns, w')
                  else case renderRecord e l DEBUG
                              (''cleaned up '' @ showNat deleted @ '' old log files'') of
                    Inl err \<Rightarrow>
                      (Returns, handleError l (Errorf ''failed to encode JSON log entry'' err) w')
                  | Inr buf \<Rightarrow> (Blocks, w'))
               else (Returns, w')))"

subsection \<open>The unbuffered iteration (\<^verbatim>\<open>unnamed/part_001\<close>)\<close>


text \<open>Any failure of \<^verbatim>\<open>os.Stat\<close> sets the size to 0; the previous file is closed last.\<close>

definition openLogFile_p1 :: "env \<Rightarrow> Logger \<Rightarrow> world \<Rightarrow> error option \<times> Logger \<times> world" where
  "openLogFile_p1 e l w =
     (case os_OpenFile e (getCurrentLogPath l) w of
        (Inl oerr, w') \<Rightarrow>
          (Some (Errorf ''failed to open log file'' oerr),
           l\<lparr>currentSize := (case os_Stat e (getCurrentLogPath l) w of
                                Inr n \<Rightarrow> of_nat n | Inl err \<Rightarrow> 0)\<rparr>, w')
      | (Inr f, w') \<Rightarrow>
          (None,
           l\<lparr>currentSize := (case os_Stat e (getCurrentLogPath l) w of
                                Inr n \<Rightarrow> of_nat n | Inl err \<Rightarrow> 0),
             file_h := Some f\<rparr>,
           (case file_h l of
              None \<Rightarrow> w'
            | Some g \<Rightarrow> snd (file_Close e g w'))))"

definition compressFile_p1 :: "env \<Rightarrow> string \<Rightarrow> string \<Rightarrow> world \<Rightarrow> error option \<times> world" where
  "compressFile_p1 e srcPath dstPath w =
     (if fails e OpOpenSrc srcPath
      then (Some (Errorf ''failed to open source file'' (ErrIO OpOpenSrc)), w)
      else case lookup w srcPath of
        None \<Rightarrow> (Some (Errorf ''failed to open source file'' ErrNotExist), w)
      | Some n \<Rightarrow>
          if fails e OpCreate dstPath
          then (Some (Errorf ''failed to create gzip file'' (ErrIO OpCreate)), w)
          else if fails e OpCopy srcPath \<or> isDir n
          then (Some (Errorf ''failed to copy file content'' (ErrIO OpCopy)),
                w\<lparr>disk := put dstPath
                   \<lparr>isDir = False, content = take (short e) (gzip e (content n)), modTime = now e\<rparr>
                   (disk w)\<rparr>)
          else if fails e OpGzClose dstPath
          then (None,
                w\<lparr>disk := put dstPath
                   \<lparr>isDir = False, content = take (short e) (gzip e (content n)), modTime = now e\<rparr>
                   (disk w)\<rparr>)
          else (None,
                w\<lparr>disk := put dstPath
                   \<lparr>isDir = False, content = gzip e (content n), modTime = now e\<rparr> (disk w)\<rparr>))"

text \<open>The first block of \<^verbatim>\<open>rotateFile\<close>: sync and close the old file, clear the field.\<close>

definition closeForRotation_p1 :: "env \<Rightarrow> Logger \<Rightarrow> world \<Rightarrow> Logger \<times> world" where
  "closeForRotation_p1 e l w =
     (case file_h l of
        None \<Rightarrow> (l, w)
      | Some f \<Rightarrow>
          (case file_Sync e f w of
             (None, w') \<Rightarrow> (l\<lparr>file_h := None\<rparr>, snd (file_Close e f w'))
           | (Some err, w') \<Rightarrow>
               (l\<lparr>file_h := None\<rparr>,
                snd (file_Close e f
                       (eprint (Errorf ''Warning: failed to sync log file during rotation'' err)
                          w')))))"

definition rotateFile_p1 :: "env \<Rightarrow> Logger \<Rightarrow> world \<Rightarrow> error option \<times> Logger \<times> world" where
  "rotateFile_p1 e l w =
     (case closeForRotation_p1 e l (w\<lparr>trace := trace w @ [Rotation]\<rparr>) of
        (l1, w1) \<Rightarrow>
          (case (if Compress (config l1) then
                   (case compressFile_p1 e (getCurrentLogPath l1) (getBackupLogPath e l1) w1 of
                      (Some err, w3) \<Rightarrow> (Some (Errorf ''failed to compress log file'' err), w3)
                    | (None, w3) \<Rightarrow>
                        (case os_Remove e (getCurrentLogPath l1) w3 of
                           (None, w4) \<Rightarrow> (None, w4)
                         | (Some rerr, w4) \<Rightarrow>
                             (None,
                              eprint (Errorf ''Warning: failed to remove original log file'' rerr)
                                w4)))
                 else
                   (case os_Rename e (getCurrentLogPath l1) (getBackupLogPath e l1) w1 of
                      (Some err, w3) \<Rightarrow> (Some (Errorf ''failed to rename log file'' err), w3)
                    | (None, w3) \<Rightarrow> (None, w3))) of
             (Some err, w3) \<Rightarrow>
               (case openLogFile_p1 e l1 w3 of (r, l2, w4) \<Rightarrow> (Some err, l2, w4))
           | (None, w3) \<Rightarrow>
               (case openLogFile_p1 e (l1\<lparr>currentSize := 0\<rparr>) w3 of
                  (Some oerr, l2, w4) \<Rightarrow>
                    (Some (Errorf ''failed to open new log file after rotation'' oerr), l2, w4)
                | (None, l2, w4) \<Rightarrow> (None, l2, w4))))"

definition shouldRotate_p1 :: "Logger \<Rightarrow> nat \<Rightarrow> bool" where
  "shouldRotate_p1 l messageSize = (MaxSize (config l) <s currentSize l + of_nat messageSize)"

text \<open>\<^verbatim>\<open>writeLog\<close> from \<^verbatim>\<open>if l.file != nil\<close> on (line 264).\<close>

definition writeFile_p1 :: "env \<Rightarrow> Logger \<Rightarrow> bytes \<Rightarrow> world \<Rightarrow> Logger \<times> world" where
  "writeFile_p1 e l logMessage w =
     (case file_h l of
        None \<Rightarrow> (l, if EnableStdout (config l) then fmt_Print e logMessage w else w)
      | Some f \<Rightarrow>
          (case file_Write e f logMessage w of
             ((n, Some err), w') \<Rightarrow> (l, eprint (Errorf ''failed to write to log file'' err) w')
           | ((n, None), w') \<Rightarrow>
               (l\<lparr>currentSize := currentSize l + of_nat n\<rparr>,
                if EnableStdout (config l)
                then fmt_Print e logMessage (w'\<lparr>trace := trace w' @ [Wrote n]\<rparr>)
                else w'\<lparr>trace := trace w' @ [Wrote n]\<rparr>)))"

definition writeLog_p1 :: "env \<Rightarrow> Logger \<Rightarrow> LogLevel \<Rightarrow> string \<Rightarrow> world \<Rightarrow> Logger \<times> world" where
  "writeLog_p1 e l level message w =
     (if level < Level (config l) then (l, w)
      else if shouldRotate_p1 l (length (formatLine e level message)) then
        (case rotateFile_p1 e l w of
           (Some err, l1, w1) \<Rightarrow> (l1, eprint (Errorf ''log rotation failed'' err) w1)
         | (None, l1, w1) \<Rightarrow> writeFile_p1 e l1 (formatLine e level message) w1)
      else writeFile_p1 e l (formatLine e level message) w)"


text \<open>\<^verbatim>\<open>cleanup\<close> (line 375): that of the bufio iteration but for its messages.\<close>

definition cleanup_p1 :: "env \<Rightarrow> Logger \<Rightarrow> world \<Rightarrow> world" where
  "cleanup_p1 e l w =
     (case getLogFiles e l w of
        Inl err \<Rightarrow> eprint (Errorf ''failed to get log file list'' err) w
      | Inr files \<Rightarrow>
          (case cleanupLoop
                  (\<lambda>p err. eprint (Errorf (''failed to delete expired log file '' @ p) err))
                  e (config l) 0 (sortNewestFirst files) (w, 0) of
             (w', deleted) \<Rightarrow>
               if 0 < deleted
               then fmt_Print e
                      (''cleaned up '' @ showNat deleted @ '' expired log files'' @ newline) w'
               else w'))"

section \<open>Concrete states\<close>

text \<open>
  An environment in which no call fails, whose clock stands at the first second of 2024
  and whose gzip encoder is a stand-in that prefixes \<open>GZ\<close>, and the states the closed theorems below are
  evaluated at.
\<close>

definition env0 :: env where
  "env0 =
     \<lparr>fails = (\<lambda>op p. False), short = 0, now = 1000,
      timeFormat = (\<lambda>layout. if layout = ''20060102_150405'' then ''20240101_000000''
                             else ''2024-01-01 00:00:00.000''),
      gzip = (\<lambda>b. ''GZ'' @ b),
      jsonEncode = (\<lambda>t l m. Inr m)\<rparr>"

definition cfg_keep2 :: Config where
  "cfg_keep2 =
     \<lparr>LogDir = ''logs'', FileName = ''app'', MaxSize = 100, MaxAge = 0, MaxBackups = 2,
      Level = INFO, EnableStdout = False, SyncInterval = 0, Compress = False,
      JSONFormat = False, Output = False, ErrorHandler = False\<rparr>"

definition lg_keep2 :: Logger where
  "lg_keep2 =
     \<lparr>config = cfg_keep2, file_h = None, writer = None, out = None, currentSize = 0,
      syncTicker = None, stopChan = False, routines = []\<rparr>"

text \<open>The active file, newest, and two archives.\<close>

definition w_archives :: world where
  "w_archives =
     \<lparr>disk = [(''app.log'', \<lparr>isDir = False, content = ''c'', modTime = 300\<rparr>),
              (''app_1.log'', \<lparr>isDir = False, content = ''b'', modTime = 200\<rparr>),
              (''app_2.log'', \<lparr>isDir = False, content = ''a'', modTime = 100\<rparr>)],
      openf = Map.empty, nextfd = 3, stderr = [], handled = [], stdout = [], sink = [],
      trace = []\<rparr>"

text \<open>
  The active file \<^verbatim>\<open>app.log\<close> holds \<open>old\<close> and is open as descriptor 0.
\<close>

definition w_open :: world where
  "w_open =
     \<lparr>disk = [(''app.log'', \<lparr>isDir = False, content = ''old'', modTime = 500\<rparr>)],
      openf = [0 \<mapsto> ''app.log''], nextfd = 1, stderr = [], handled = [], stdout = [],
      sink = [], trace = []\<rparr>"

definition cfg_plain :: Config where
  "cfg_plain =
     \<lparr>LogDir = ''logs'', FileName = ''app'', MaxSize = 100, MaxAge = 0, MaxBackups = 0,
      Level = INFO, EnableStdout = False, SyncInterval = 0, Compress = False,
      JSONFormat = False, Output = False, ErrorHandler = False\<rparr>"

text \<open>A logger of \<^verbatim>\<open>unnamed/part_001\<close> with \<open>MaxSize = 0\<close>.\<close>

definition lg_nolimit :: Logger where
  "lg_nolimit =
     \<lparr>config = cfg_plain\<lparr>MaxSize := 0\<rparr>, file_h = Some 0, writer = None, out = None,
      currentSize = 3, syncTicker = None, stopChan = False, routines = [CleanupRoutine]\<rparr>"

text \<open>
  A logger whose buffered writer holds \<open>xyz\<close>: \<open>writer\<close> for the bufio iteration,
  \<open>out\<close> for the MultiWriter iteration.
\<close>

definition lg_buffered :: Logger where
  "lg_buffered =
     \<lparr>config = cfg_plain, file_h = Some 0,
      writer = Some \<lparr>wfd = 0, pending = ''xyz'', werr = None\<rparr>,
      out = Some \<lparr>fileWriter = \<lparr>wfd = 0, pending = ''xyz'', werr = None\<rparr>, second = None\<rparr>,
      currentSize = 6, syncTicker = None, stopChan = False, routines = [CleanupRoutine]\<rparr>"

definition env_write_fails :: env where
  "env_write_fails = env0\<lparr>fails := (\<lambda>op p. op = OpWrite)\<rparr>"

text \<open>A MultiWriter logger with a caller's \<open>Output\<close>, and a bufio logger with stdout.\<close>

definition lg_output :: Logger where
  "lg_output =
     \<lparr>config = cfg_plain\<lparr>Output := True\<rparr>, file_h = Some 0, writer = None,
      out = Some \<lparr>fileWriter = \<lparr>wfd = 0, pending = [], werr = None\<rparr>, second = Some Custom\<rparr>,
      currentSize = 3, syncTicker = None, stopChan = False, routines = [CleanupRoutine]\<rparr>"

definition lg_stdout :: Logger where
  "lg_stdout =
     \<lparr>config = cfg_plain\<lparr>EnableStdout := True\<rparr>, file_h = Some 0,
      writer = Some \<lparr>wfd = 0, pending = [], werr = None\<rparr>, out = None,
      currentSize = 3, syncTicker = None, stopChan = False, routines = [CleanupRoutine]\<rparr>"

definition env_sink_fails :: env where
  "env_sink_fails = env0\<lparr>fails := (\<lambda>op p. op = OpSink)\<rparr>"

text \<open>
  Loggers over \<open>w_open\<close> with \<open>MaxSize = 10\<close>, so that a record of 36 bytes calls for a
  rotation: of the bufio iteration, of \<^verbatim>\<open>unnamed/part_001\<close>, and of the bufio iteration with
  compression.
\<close>

definition lg_small :: Logger where
  "lg_small =
     \<lparr>config = cfg_plain\<lparr>MaxSize := 10\<rparr>, file_h = Some 0,
      writer = Some \<lparr>wfd = 0, pending = [], werr = None\<rparr>, out = None,
      currentSize = 3, syncTicker = None, stopChan = False, routines = [CleanupRoutine]\<rparr>"

definition lg_small_p1 :: Logger where
  "lg_small_p1 = lg_small\<lparr>writer := None\<rparr>"

definition lg_gz :: Logger where
  "lg_gz = lg_small\<lparr>config := cfg_plain\<lparr>MaxSize := 10, Compress := True\<rparr>\<rparr>"

definition env_rename_fails :: env where
  "env_rename_fails = env0\<lparr>fails := (\<lambda>op p. op = OpRename)\<rparr>"

definition env_remove_fails :: env where
  "env_remove_fails = env0\<lparr>fails := (\<lambda>op p. op = OpRemove)\<rparr>"

definition env_gzclose_fails :: env where
  "env_gzclose_fails = env0\<lparr>fails := (\<lambda>op p. op = OpGzClose)\<rparr>"

text \<open>
  A bufio logger over \<open>w_open\<close> after a failed flush: the writer kept the error and the
  three bytes \<open>xyz\<close>, which \<open>currentSize\<close> counts and the file does not hold.
\<close>

definition lg_stuck_small :: Logger where
  "lg_stuck_small =
     lg_small\<lparr>writer := Some \<lparr>wfd = 0, pending = ''xyz'', werr = Some (ErrIO OpWrite)\<rparr>,
       currentSize := 6\<rparr>"

text \<open>
  A logger of \<^verbatim>\<open>unnamed/part_001\<close> with compression, and environments in which
  \<^verbatim>\<open>os.Stat\<close> fails together with \<^verbatim>\<open>os.Rename\<close> or \<^verbatim>\<open>os.Remove\<close>.
\<close>

definition lg_gz_p1 :: Logger where
  "lg_gz_p1 = lg_gz\<lparr>writer := None\<rparr>"

definition env_rename_stat_fail :: env where
  "env_rename_stat_fail = env0\<lparr>fails := (\<lambda>op p. op = OpRename \<or> op = OpStat)\<rparr>"

definition env_remove_stat_fail :: env where
  "env_remove_stat_fail = env0\<lparr>fails := (\<lambda>op p. op = OpRemove \<or> op = OpStat)\<rparr>"

text \<open>A MultiWriter logger that also writes to stdout.\<close>

definition lg_mw_stdout :: Logger where
  "lg_mw_stdout =
     \<lparr>config = cfg_plain\<lparr>EnableStdout := True\<rparr>, file_h = Some 0, writer = None,
      out = Some \<lparr>fileWriter = \<lparr>wfd = 0, pending = [], werr = None\<rparr>, second = Some Stdout\<rparr>,
      currentSize = 3, syncTicker = None, stopChan = False, routines = [CleanupRoutine]\<rparr>"

section \<open>Properties\<close>

subsection \<open>Facts about the file system\<close>

lemma lookup_unlink_other: "q \<noteq> p \<Longrightarrow> map_of (unlink p d) q = map_of d q"
  by (induction d) (auto simp: unlink_def)

lemma os_Remove_other:
  "os_Remove e p w = (r, w') \<Longrightarrow> q \<noteq> p \<Longrightarrow> lookup w' q = lookup w q"
  by (auto simp: os_Remove_def lookup_def lookup_unlink_other split: if_splits option.splits)

lemma disk_eprint [simp]: "disk (eprint err w) = disk w"
  by (simp add: eprint_def)

lemma disk_handleError [simp]: "disk (handleError l err w) = disk w"
  by (simp add: handleError_def)

lemma lookup_eprint [simp]: "lookup (eprint err w) p = lookup w p"
  by (simp add: lookup_def)

lemma lookup_handleError [simp]: "lookup (handleError l err w) p = lookup w p"
  by (simp add: lookup_def)

lemma lookup_fmt_Print [simp]: "lookup (fmt_Print e bs w) p = lookup w p"
  by (simp add: lookup_def fmt_Print_def sink_Write_def deliver_def)

subsection \<open>The buffered writer counts what it takes\<close>

lemma file_Write_count:
  "file_Write e f bs w = ((n, r), w') \<Longrightarrow> n \<le> length bs \<and> (r = None \<longrightarrow> n = length bs)"
  by (auto simp: file_Write_def split: option.splits if_splits)

lemma bufio_loop_count:
  "bufio_loop e b s nn w = ((b', s', nn'), w') \<Longrightarrow> nn' + length s' = nn + length s"
proof (induction e b s nn w rule: bufio_loop.induct)
  case (1 e b s nn w)
  show ?case
  proof (cases "bufSize - length (pending b) < length s \<and> werr b = None")
    case False
    with "1.prems" show ?thesis by (simp add: bufio_loop.simps)
  next
    case True
    note c = True
    show ?thesis
    proof (cases "pending b = []")
      case True
      obtain n err w1 where fw: "file_Write e (wfd b) s w = ((n, err), w1)"
        by (metis prod.exhaust)
      have le: "n \<le> length s" using file_Write_count[OF fw] by simp
      have "bufio_loop e (b\<lparr>werr := err\<rparr>) (drop n s) (nn + n) w1 = ((b', s', nn'), w')"
        using "1.prems" c True fw by (simp add: bufio_loop.simps[of e b s nn w])
      from "1.IH"(1)[OF c True fw[symmetric] refl this] le
      show ?thesis by simp
    next
      case False
      obtain ferr b1 w1 where fl: "bufio_Flush e (b\<lparr>pending := pending b @ take (bufSize - length (pending b)) s\<rparr>) w = (ferr, b1, w1)"
        by (metis prod.exhaust)
      have "bufio_loop e b1 (drop (bufSize - length (pending b)) s)
                  (nn + min (bufSize - length (pending b)) (length s)) w1 = ((b', s', nn'), w')"
        using "1.prems" c False fl by (simp add: bufio_loop.simps[of e b s nn w])
      from "1.IH"(2)[OF c False fl[symmetric] refl this]
      show ?thesis by simp
    qed
  qed
qed

lemma bufio_loop_fits:
  "bufio_loop e b s nn w = ((b', s', nn'), w') \<Longrightarrow> werr b' = None \<Longrightarrow>
     length s' \<le> bufSize - length (pending b')"
proof (induction e b s nn w rule: bufio_loop.induct)
  case (1 e b s nn w)
  show ?case
  proof (cases "bufSize - length (pending b) < length s \<and> werr b = None")
    case False
    with "1.prems" show ?thesis by (auto simp add: bufio_loop.simps)
  next
    case True
    note c = True
    show ?thesis
    proof (cases "pending b = []")
      case True
      obtain n err w1 where fw: "file_Write e (wfd b) s w = ((n, err), w1)"
        by (metis prod.exhaust)
      have "bufio_loop e (b\<lparr>werr := err\<rparr>) (drop n s) (nn + n) w1 = ((b', s', nn'), w')"
        using "1.prems" c True fw by (simp add: bufio_loop.simps[of e b s nn w])
      from "1.IH"(1)[OF c True fw[symmetric] refl this "1.prems"(2)]
      show ?thesis .
    next
      case False
      obtain ferr b1 w1 where fl: "bufio_Flush e (b\<lparr>pending := pending b @ take (bufSize - length (pending b)) s\<rparr>) w = (ferr, b1, w1)"
        by (metis prod.exhaust)
      have "bufio_loop e b1 (drop (bufSize - length (pending b)) s)
                  (nn + min (bufSize - length (pending b)) (length s)) w1 = ((b', s', nn'), w')"
        using "1.prems" c False fl by (simp add: bufio_loop.simps[of e b s nn w])
      from "1.IH"(2)[OF c False fl[symmetric] refl this "1.prems"(2)]
      show ?thesis .
    qed
  qed
qed

lemma bufio_WriteString_count:
  assumes "bufio_WriteString e b s w = ((n, None), b', w')"
  shows "n = length s"
proof -
  obtain b1 s1 nn w1 where lp: "bufio_loop e b s 0 w = ((b1, s1, nn), w1)"
    by (metis prod.exhaust)
  from assms lp have ok: "werr b1 = None"
    and n: "n = nn + min (bufSize - length (pending b1)) (length s1)"
    by (auto simp: bufio_WriteString_def split: option.splits)
  from bufio_loop_count[OF lp] bufio_loop_fits[OF lp ok] n show ?thesis
    by simp
qed

lemma multi_Write_count:
  "multi_Write e m p w = ((n, None), m', w') \<Longrightarrow> n = length p"
  by (auto simp: multi_Write_def split: prod.splits option.splits if_splits)

lemma write_accounting_bufio:
  assumes "\<not> level < Level (config l)"
    and "(if shouldRotate l (length (formatLine e level message)) then rotateFile e l w
          else (None, l, w)) = (None, l1, w1)"
    and "writer l1 = Some b"
    and "bufio_WriteString e b (formatLine e level message) w1 = ((n, r), b', w2)"
  shows "case r of
           Some err \<Rightarrow>
             currentSize (fst (writeLog e l level message w)) = currentSize l1
             \<and> stderr (snd (writeLog e l level message w))
                 = stderr w2 @ [Errorf ''failed to write to log file'' err]
         | None \<Rightarrow>
             n = length (formatLine e level message)
             \<and> currentSize (fst (writeLog e l level message w)) = currentSize l1 + of_nat n"
proof -
  have w: "writeLog e l level message w = writeBuffered e l1 (formatLine e level message) w1"
    using assms(1,2) by (auto simp: writeLog_def split: if_splits)
  show ?thesis
  proof (cases r)
    case None
    with assms(4) have "n = length (formatLine e level message)"
      using bufio_WriteString_count by blast
    with None assms(3,4) w show ?thesis
      by (simp add: writeBuffered_def)
  next
    case (Some err)
    with assms(3,4) w show ?thesis
      by (simp add: writeBuffered_def eprint_def)
  qed
qed

lemma write_accounting_mw:
  assumes "\<not> level < Level (config l)"
    and "renderRecord e l level message = Inr buf"
    and "(if shouldRotate l (length buf) then rotateFile_mw e l w else (None, l, w))
          = (None, l1, w1)"
    and "out l1 = Some m"
    and "multi_Write e m buf w1 = ((n, r), m', w2)"
  shows "case r of
           Some err \<Rightarrow>
             currentSize (fst (writeLog_mw e l level message w)) = currentSize l1
             \<and> (if ErrorHandler (config l1)
                 then handled (snd (writeLog_mw e l level message w))
                        = handled w2 @ [Errorf ''failed to write to log output'' err]
                 else stderr (snd (writeLog_mw e l level message w))
                        = stderr w2
                          @ [Errorf ''logr error'' (Errorf ''failed to write to log output'' err)])
         | None \<Rightarrow>
             n = length buf
             \<and> currentSize (fst (writeLog_mw e l level message w)) = currentSize l1 + of_nat n"
proof -
  have w: "writeLog_mw e l level message w = writeOut_mw e l1 buf w1"
    using assms(1,2,3) by (auto simp: writeLog_mw_def split: if_splits)
  show ?thesis
  proof (cases r)
    case None
    with assms(5) have "n = length buf"
      using multi_Write_count by blast
    with None assms(4,5) w show ?thesis
      by (simp add: writeOut_mw_def)
  next
    case (Some err)
    with assms(4,5) w show ?thesis
      by (simp add: writeOut_mw_def handleError_def eprint_def)
  qed
qed

subsection \<open>Files, descriptors and reopening\<close>

lemma backup_neq_current: "getBackupLogPath e l \<noteq> getCurrentLogPath l"
  by (simp add: getBackupLogPath_def getCurrentLogPath_def)

lemma map_of_replace_other:
  "q \<noteq> p \<Longrightarrow> map_of (map (\<lambda>(k, m). if k = p then (k, n) else (k, m)) d) q = map_of d q"
  by (induction d) auto

lemma map_of_replace_same:
  "p \<in> fst ` set d \<Longrightarrow>
     map_of (map (\<lambda>(k, m). if k = p then (k, n) else (k, m)) d) p = Some n"
  by (induction d) auto

lemma map_of_put: "map_of (put p n d) q = (if q = p then Some n else map_of d q)"
proof (cases "p \<in> fst ` set d")
  case False
  then have "map_of d p = None" by (simp add: map_of_eq_None_iff)
  with False show ?thesis by (auto simp: put_def map_add_def split: option.splits)
next
  case True
  then show ?thesis
    by (simp add: put_def map_of_replace_other map_of_replace_same)
qed

lemma map_of_unlink: "map_of (unlink p d) q = (if q = p then None else map_of d q)"
  by (induction d) (auto simp: unlink_def)

lemma os_OpenFile_ok:
  assumes "os_OpenFile e p w = (Inr f, w')"
  shows "f = nextfd w" and "openf w' = (openf w)(f \<mapsto> p)"
    and "lookup w' p = Some (case lookup w p of
                               None \<Rightarrow> \<lparr>isDir = False, content = [], modTime = now e\<rparr>
                             | Some n \<Rightarrow> n)"
    and "q \<noteq> p \<Longrightarrow> lookup w' q = lookup w q"
    and "stderr w' = stderr w" and "trace w' = trace w" and "stdout w' = stdout w"
    and "nextfd w' = Suc (nextfd w)"
  using assms
  by (auto simp: os_OpenFile_def lookup_def map_add_def split: if_splits option.splits)

lemma os_OpenFile_err: "os_OpenFile e p w = (Inl err, w') \<Longrightarrow> w' = w"
  by (auto simp: os_OpenFile_def split: if_splits option.splits)

lemma openLogFile_ok:
  assumes "openLogFile e l w = (None, l', w')"
  shows "os_OpenFile e (getCurrentLogPath l) w = (Inr (nextfd w), w')"
    and "file_h l' = Some (nextfd w)"
    and "writer l' = Some \<lparr>wfd = nextfd w, pending = [], werr = None\<rparr>"
    and "config l' = config l"
    and "currentSize l' = (case lookup w (getCurrentLogPath l) of
                             None \<Rightarrow> 0 | Some n \<Rightarrow> of_nat (length (content n)))"
proof -
  from assms obtain f where o: "os_OpenFile e (getCurrentLogPath l) w = (Inr f, w')"
    by (auto simp: openLogFile_def split: sum.splits if_splits prod.splits)
  from os_OpenFile_ok(1)[OF o] o
  show "os_OpenFile e (getCurrentLogPath l) w = (Inr (nextfd w), w')" by simp
  from assms o os_OpenFile_ok(1)[OF o]
  show "file_h l' = Some (nextfd w)"
    and "writer l' = Some \<lparr>wfd = nextfd w, pending = [], werr = None\<rparr>"
    and "config l' = config l"
    and "currentSize l' = (case lookup w (getCurrentLogPath l) of
                             None \<Rightarrow> 0 | Some n \<Rightarrow> of_nat (length (content n)))"
    by (auto simp: openLogFile_def os_Stat_def split: sum.splits if_splits prod.splits option.splits)
qed

lemma openf_eprint [simp]: "openf (eprint err w) = openf w"
  by (simp add: eprint_def)

lemma map_of_map_isDir:
  assumes "\<And>k m. isDir (f k m) = isDir m"
  shows "map_option isDir (map_of (map (\<lambda>(k, m). (k, f k m)) d) q)
         = map_option isDir (map_of d q)"
  using assms by (induction d) auto

lemma isDirectory_append_to [simp]:
  "isDirectory (append_to e p bs w) q = isDirectory w q"
proof -
  have f: "(\<lambda>(k, m). if k = p then (k, m\<lparr>content := content m @ bs, modTime := now e\<rparr>)
                    else (k, m))
           = (\<lambda>(k, m). (k, if k = p then m\<lparr>content := content m @ bs, modTime := now e\<rparr>
                               else m))"
    by (auto simp: fun_eq_iff)
  have "map_option isDir (lookup (append_to e p bs w) q) = map_option isDir (lookup w q)"
    unfolding lookup_def append_to_def f by (simp add: map_of_map_isDir)
  then show ?thesis
    by (cases "lookup (append_to e p bs w) q"; cases "lookup w q") (auto simp: isDirectory_def)
qed

lemma isDirectory_eprint [simp]: "isDirectory (eprint err w) q = isDirectory w q"
  by (simp add: isDirectory_def)

lemma nextfd_eprint [simp]: "nextfd (eprint err w) = nextfd w"
  by (simp add: eprint_def)

lemma flushForRotation_frame:
  assumes "flushForRotation e l w = (l1, w1)"
  shows "config l1 = config l" and "file_h l1 = file_h l" and "openf w1 = openf w"
    and "currentSize l1 = currentSize l" and "nextfd w1 = nextfd w"
  using assms
  by (auto simp: flushForRotation_def bufio_Flush_def file_Write_def append_to_def
      split: option.splits prod.splits if_splits)

lemma flushForRotation_isDirectory:
  assumes "flushForRotation e l w = (l1, w1)"
  shows "isDirectory w1 q = isDirectory w q"
  using assms
  by (auto simp: flushForRotation_def bufio_Flush_def file_Write_def
      split: option.splits prod.splits if_splits)

lemma closeForRotation_closed:
  "file_h l = Some g \<Longrightarrow> openf (closeForRotation e l w) g = None"
  by (auto simp: closeForRotation_def file_Close_def split: option.splits prod.splits)

lemma lookup_closeForRotation [simp]:
  "lookup (closeForRotation e l w) p = lookup w p"
  by (auto simp: closeForRotation_def file_Close_def lookup_def eprint_def split: option.splits prod.splits)

lemma nextfd_closeForRotation [simp]: "nextfd (closeForRotation e l w) = nextfd w"
  by (auto simp: closeForRotation_def file_Close_def split: option.splits prod.splits)

lemma isDirectory_closeForRotation [simp]:
  "isDirectory (closeForRotation e l w) p = isDirectory w p"
  by (simp add: isDirectory_def)

lemma compressFile_openf: "compressFile e s d w = (r, w') \<Longrightarrow> openf w' = openf w"
  by (auto simp: compressFile_def split: option.splits if_splits)

lemma compressFile_frame:
  assumes "compressFile e s d w = (r, w')"
  shows "nextfd w' = nextfd w" and "q \<noteq> d \<Longrightarrow> lookup w' q = lookup w q"
  using assms
  by (auto simp: compressFile_def lookup_def map_of_put split: option.splits if_splits)

lemma os_Rename_frame:
  assumes "os_Rename e p q w = (r, w')" and "q \<noteq> p"
  shows "nextfd w' = nextfd w" and "isDirectory w' p \<Longrightarrow> isDirectory w p"
  using assms
  by (auto simp: os_Rename_def isDirectory_def lookup_def map_of_put map_of_unlink
      split: option.splits if_splits)

lemma os_Remove_frame:
  assumes "os_Remove e p w = (r, w')"
  shows "nextfd w' = nextfd w" and "isDirectory w' p \<Longrightarrow> isDirectory w p"
  using assms
  by (auto simp: os_Remove_def isDirectory_def lookup_def map_of_unlink
      split: option.splits if_splits)

lemma os_Rename_openf: "os_Rename e p q w = (r, w') \<Longrightarrow> openf w' = openf w"
  by (auto simp: os_Rename_def split: option.splits if_splits)

lemma os_Remove_openf: "os_Remove e p w = (r, w') \<Longrightarrow> openf w' = openf w"
  by (auto simp: os_Remove_def split: option.splits if_splits)

lemma os_Rename_ok: "os_Rename e p q w = (None, w') \<Longrightarrow> q \<noteq> p \<Longrightarrow> lookup w' p = None"
  by (auto simp: os_Rename_def lookup_def map_of_put map_of_unlink split: option.splits if_splits)

lemma os_Remove_ok: "os_Remove e p w = (None, w') \<Longrightarrow> lookup w' p = None"
  by (auto simp: os_Remove_def lookup_def map_of_unlink split: option.splits if_splits)

lemma rotateFile_reopens:
  assumes rot: "rotateFile e l w = (r, l', w')"
  shows "\<exists>l1 wx r0. openLogFile e l1 wx = (r0, l', w')
           \<and> getCurrentLogPath l1 = getCurrentLogPath l
           \<and> (\<forall>g. file_h l1 = Some g \<longrightarrow> openf wx g = None)
           \<and> (r = None \<longrightarrow> r0 = None)
           \<and> nextfd wx = nextfd w \<and> currentSize l1 = currentSize l
           \<and> (isDirectory wx (getCurrentLogPath l) \<longrightarrow> isDirectory w (getCurrentLogPath l))
           \<and> (r = None \<and> (Compress (config l) \<longrightarrow> \<not> fails e OpRemove (getCurrentLogPath l))
                \<longrightarrow> lookup wx (getCurrentLogPath l) = None)"
proof -
  obtain l1 w1 where fl: "flushForRotation e l (w\<lparr>trace := trace w @ [Rotation]\<rparr>) = (l1, w1)"
    by (metis prod.exhaust)
  define w2 where "w2 = closeForRotation e l1 w1"
  note fr = flushForRotation_frame[OF fl]
  have cur: "getCurrentLogPath l1 = getCurrentLogPath l"
    by (simp add: getCurrentLogPath_def fr)
  have closed: "\<And>g. file_h l1 = Some g \<Longrightarrow> openf w2 g = None"
    by (simp add: w2_def closeForRotation_closed)
  have neq: "getBackupLogPath e l1 \<noteq> getCurrentLogPath l1"
    by (rule backup_neq_current)
  have nf2: "nextfd w2 = nextfd w"
    using fr(5) by (simp add: w2_def)
  have nd2: "isDirectory w2 (getCurrentLogPath l) \<Longrightarrow> isDirectory w (getCurrentLogPath l)"
  proof -
    have "isDirectory (w\<lparr>trace := trace w @ [Rotation]\<rparr>) (getCurrentLogPath l)
          = isDirectory w (getCurrentLogPath l)"
      by (simp add: isDirectory_def lookup_def)
    with flushForRotation_isDirectory[OF fl, of "getCurrentLogPath l"]
    show "isDirectory w2 (getCurrentLogPath l) \<Longrightarrow> isDirectory w (getCurrentLogPath l)"
      by (simp add: w2_def)
  qed
  note cs = fr(4)
  show ?thesis
  proof (cases "Compress (config l)")
    case False
    obtain rr w3 where rn: "os_Rename e (getCurrentLogPath l1) (getBackupLogPath e l1) w2 = (rr, w3)"
      by (metis prod.exhaust)
    have o3: "openf w3 = openf w2" using os_Rename_openf[OF rn] .
    have nf3: "nextfd w3 = nextfd w" using os_Rename_frame(1)[OF rn neq] nf2 by simp
    have nd3: "isDirectory w3 (getCurrentLogPath l) \<Longrightarrow> isDirectory w (getCurrentLogPath l)"
      using os_Rename_frame(2)[OF rn neq] nd2 cur by simp
    show ?thesis
    proof (cases rr)
      case None
      with rot fl rn False fr have "openLogFile e l1 w3 = (r, l', w')"
        by (simp add: rotateFile_def w2_def)
      moreover have "lookup w3 (getCurrentLogPath l) = None"
        using os_Rename_ok[OF rn[unfolded None] neq] cur by simp
      ultimately show ?thesis using cur closed o3 nf3 nd3 cs
        by (intro exI[of _ l1] exI[of _ w3] exI[of _ r]) auto
    next
      case (Some err)
      with rot fl rn False fr obtain r0 where "openLogFile e l1 w3 = (r0, l', w')" "r \<noteq> None"
        by (auto simp: rotateFile_def w2_def split: prod.splits)
      then show ?thesis using cur closed o3 nf3 nd3 cs
        by (intro exI[of _ l1] exI[of _ w3] exI[of _ r0]) auto
    qed
  next
    case True
    obtain rc w3 where cf: "compressFile e (getCurrentLogPath l1) (getBackupLogPath e l1) w2 = (rc, w3)"
      by (metis prod.exhaust)
    have o3: "openf w3 = openf w2" using compressFile_openf[OF cf] .
    have nf3: "nextfd w3 = nextfd w" using compressFile_frame(1)[OF cf] nf2 by simp
    have "lookup w3 (getCurrentLogPath l1) = lookup w2 (getCurrentLogPath l1)"
      using compressFile_frame(2)[OF cf] neq by metis
    then have nd3: "isDirectory w3 (getCurrentLogPath l) \<Longrightarrow> isDirectory w (getCurrentLogPath l)"
      using nd2 cur by (simp add: isDirectory_def)
    show ?thesis
    proof (cases rc)
      case (Some err)
      with rot fl cf True fr obtain r0 where "openLogFile e l1 w3 = (r0, l', w')" "r \<noteq> None"
        by (auto simp: rotateFile_def w2_def split: prod.splits)
      then show ?thesis using cur closed o3 nf3 nd3 cs
        by (intro exI[of _ l1] exI[of _ w3] exI[of _ r0]) auto
    next
      case None
      obtain rm w4 where rmv: "os_Remove e (getCurrentLogPath l1) w3 = (rm, w4)"
        by (metis prod.exhaust)
      have o4: "openf w4 = openf w2" using os_Remove_openf[OF rmv] o3 by simp
      have nf4: "nextfd w4 = nextfd w" using os_Remove_frame(1)[OF rmv] nf3 by simp
      have nd4: "isDirectory w4 (getCurrentLogPath l) \<Longrightarrow> isDirectory w (getCurrentLogPath l)"
        using os_Remove_frame(2)[OF rmv] nd3 cur by simp
      show ?thesis
      proof (cases rm)
        case None
        with rot fl cf \<open>rc = None\<close> rmv True fr have "openLogFile e l1 w4 = (r, l', w')"
          by (simp add: rotateFile_def w2_def)
        moreover have "lookup w4 (getCurrentLogPath l) = None"
          using os_Remove_ok[OF rmv[unfolded None]] cur by simp
        ultimately show ?thesis using cur closed o4 nf4 nd4 cs
          by (intro exI[of _ l1] exI[of _ w4] exI[of _ r]) auto
      next
        case (Some rerr)
        with rot fl cf \<open>rc = None\<close> rmv True fr
        have op: "openLogFile e l1
                (eprint (Errorf ''Warning: failed to remove original log file after compression'' rerr) w4)
              = (r, l', w')"
          by (simp add: rotateFile_def w2_def)
        show ?thesis
        proof (cases "fails e OpRemove (getCurrentLogPath l)")
          case True
          with op cur closed o4 nf4 nd4 cs \<open>Compress (config l)\<close> show ?thesis
            by (intro exI[of _ l1] exI[of _ "eprint (Errorf ''Warning: failed to remove original log file after compression'' rerr) w4"] exI[of _ r]) auto
        next
          case False
          with rmv Some cur have "lookup w3 (getCurrentLogPath l) = None" "w4 = w3"
            by (auto simp: os_Remove_def split: if_splits option.splits)
          with op cur closed o4 nf4 nd4 cs show ?thesis
            by (intro exI[of _ l1] exI[of _ "eprint (Errorf ''Warning: failed to remove original log file after compression'' rerr) w4"] exI[of _ r]) (auto simp: lookup_def)
        qed
      qed
    qed
  qed
qed

lemma closeForRotation_p1_frame:
  assumes "closeForRotation_p1 e l w = (l1, w1)"
  shows "config l1 = config l" and "file_h l1 = None" and "lookup w1 p = lookup w p"
    and "nextfd w1 = nextfd w" and "currentSize l1 = currentSize l"
  using assms
  by (auto simp: closeForRotation_p1_def file_Sync_def file_Close_def lookup_def eprint_def
      split: option.splits prod.splits if_splits)

lemma rotateFile_p1_reopens:
  assumes rot: "rotateFile_p1 e l w = (r, l', w')"
  shows "\<exists>lx wx r0. openLogFile_p1 e lx wx = (r0, l', w')
           \<and> getCurrentLogPath lx = getCurrentLogPath l
           \<and> file_h lx = None \<and> (r = None \<longrightarrow> r0 = None)
           \<and> nextfd wx = nextfd w
           \<and> (isDirectory wx (getCurrentLogPath l) \<longrightarrow> isDirectory w (getCurrentLogPath l))
           \<and> (r = None \<and> (Compress (config l) \<longrightarrow> \<not> fails e OpRemove (getCurrentLogPath l))
                \<longrightarrow> lookup wx (getCurrentLogPath l) = None)"
proof -
  obtain l1 w1 where cl: "closeForRotation_p1 e l (w\<lparr>trace := trace w @ [Rotation]\<rparr>) = (l1, w1)"
    by (metis prod.exhaust)
  note fr = closeForRotation_p1_frame[OF cl]
  have cur: "getCurrentLogPath l1 = getCurrentLogPath l"
    by (simp add: getCurrentLogPath_def fr)
  have neq: "getBackupLogPath e l1 \<noteq> getCurrentLogPath l1"
    by (rule backup_neq_current)
  define arch where "arch =
    (if Compress (config l1) then
                   (case compressFile_p1 e (getCurrentLogPath l1) (getBackupLogPath e l1) w1 of
                      (Some err, w3) \<Rightarrow> (Some (Errorf ''failed to compress log file'' err), w3)
                    | (None, w3) \<Rightarrow>
                        (case os_Remove e (getCurrentLogPath l1) w3 of
                           (None, w4) \<Rightarrow> (None, w4)
                         | (Some rerr, w4) \<Rightarrow>
                             (None,
                              eprint (Errorf ''Warning: failed to remove original log file'' rerr)
                                w4)))
                 else
                   (case os_Rename e (getCurrentLogPath l1) (getBackupLogPath e l1) w1 of
                      (Some err, w3) \<Rightarrow> (Some (Errorf ''failed to rename log file'' err), w3)
                    | (None, w3) \<Rightarrow> (None, w3)))"
  obtain ra w3 where ar: "arch = (ra, w3)" by (metis prod.exhaust)
  have gone: "ra = None \<Longrightarrow> (Compress (config l) \<longrightarrow> \<not> fails e OpRemove (getCurrentLogPath l))
                \<Longrightarrow> lookup w3 (getCurrentLogPath l) = None"
    using ar fr(1) cur neq unfolding arch_def
    by (auto simp: lookup_def os_Remove_def os_Rename_def map_of_unlink map_of_put eprint_def
        split: if_splits prod.splits option.splits)
  have nf: "nextfd w3 = nextfd w"
    using ar fr(4) unfolding arch_def
    by (auto simp: compressFile_p1_def os_Remove_def os_Rename_def eprint_def
        split: if_splits prod.splits option.splits)
  have "isDirectory w3 (getCurrentLogPath l) \<Longrightarrow> isDirectory w1 (getCurrentLogPath l)"
    using ar fr(1) cur neq unfolding arch_def
    by (auto simp: isDirectory_def lookup_def compressFile_p1_def os_Remove_def os_Rename_def
        map_of_unlink map_of_put eprint_def split: if_splits prod.splits option.splits)
  then have nd: "isDirectory w3 (getCurrentLogPath l) \<Longrightarrow> isDirectory w (getCurrentLogPath l)"
    using fr(3)[of "getCurrentLogPath l"] by (simp add: isDirectory_def lookup_def)
  show ?thesis
  proof (cases ra)
    case (Some err)
    with rot cl ar obtain r0 where "openLogFile_p1 e l1 w3 = (r0, l', w')" "r \<noteq> None"
      by (auto simp: rotateFile_p1_def arch_def[symmetric] split: prod.splits)
    then show ?thesis using cur fr(2) nf nd
      by (intro exI[of _ l1] exI[of _ w3] exI[of _ r0]) auto
  next
    case None
    with rot cl ar obtain r0 where "openLogFile_p1 e (l1\<lparr>currentSize := 0\<rparr>) w3 = (r0, l', w')"
      "r = None \<longrightarrow> r0 = None"
      by (auto simp: rotateFile_p1_def arch_def[symmetric] split: prod.splits option.splits)
    then show ?thesis using cur fr(2) gone None nf nd
      by (intro exI[of _ "l1\<lparr>currentSize := 0\<rparr>"] exI[of _ w3] exI[of _ r0])
         (auto simp: getCurrentLogPath_def)
  qed
qed

lemma openLogFile_size:
  assumes "openLogFile e l w = (r, l', w')" and "\<not> fails e OpStat (getCurrentLogPath l)"
  shows "currentSize l' = (case lookup w' (getCurrentLogPath l) of
                             None \<Rightarrow> 0 | Some n \<Rightarrow> of_nat (length (content n)))"
  using assms
  by (auto simp: openLogFile_def os_Stat_def os_OpenFile_def lookup_def map_add_def
      split: sum.splits if_splits prod.splits option.splits)

lemma openLogFile_stat_fails:
  "fails e OpStat (getCurrentLogPath l) \<Longrightarrow>
     openLogFile e l w = (Some (Errorf ''failed to get log file info'' (ErrIO OpStat)), l, w)"
  by (simp add: openLogFile_def os_Stat_def)


lemma openLogFile_p1_size:
  assumes "openLogFile_p1 e l w = (r, l', w')" and "\<not> fails e OpStat (getCurrentLogPath l)"
  shows "currentSize l' = (case lookup w' (getCurrentLogPath l) of
                             None \<Rightarrow> 0 | Some n \<Rightarrow> of_nat (length (content n)))"
  using assms
  by (auto simp: openLogFile_p1_def os_Stat_def os_OpenFile_def file_Close_def lookup_def
      map_add_def split: sum.splits if_splits prod.splits option.splits)


lemma rotation_currentSize_bufio:
  assumes rot: "rotateFile e l w = (r, l', w')"
  shows "if fails e OpStat (getCurrentLogPath l)
         then r \<noteq> None \<and> currentSize l' = currentSize l
         else currentSize l' = (case lookup w' (getCurrentLogPath l) of
                                  None \<Rightarrow> 0 | Some n \<Rightarrow> of_nat (length (content n)))"
    and "r = None \<and> (Compress (config l) \<longrightarrow> \<not> fails e OpRemove (getCurrentLogPath l))
         \<longrightarrow> currentSize l' = 0
             \<and> map_option content (lookup w' (getCurrentLogPath l)) = Some []"
proof -
  from rotateFile_reopens[OF rot] obtain l1 wx r0 where
    o: "openLogFile e l1 wx = (r0, l', w')"
    and cur: "getCurrentLogPath l1 = getCurrentLogPath l"
    and rr: "r = None \<longrightarrow> r0 = None"
    and cs: "currentSize l1 = currentSize l"
    and fresh: "r = None \<and> (Compress (config l) \<longrightarrow> \<not> fails e OpRemove (getCurrentLogPath l))
                \<longrightarrow> lookup wx (getCurrentLogPath l) = None"
    by blast
  show "if fails e OpStat (getCurrentLogPath l)
         then r \<noteq> None \<and> currentSize l' = currentSize l
         else currentSize l' = (case lookup w' (getCurrentLogPath l) of
                                  None \<Rightarrow> 0 | Some n \<Rightarrow> of_nat (length (content n)))"
  proof (cases "fails e OpStat (getCurrentLogPath l)")
    case True
    with openLogFile_stat_fails[of e l1 wx] cur o rr cs show ?thesis by auto
  next
    case False
    with openLogFile_size[OF o] cur show ?thesis by simp
  qed
  show "r = None \<and> (Compress (config l) \<longrightarrow> \<not> fails e OpRemove (getCurrentLogPath l))
         \<longrightarrow> currentSize l' = 0
             \<and> map_option content (lookup w' (getCurrentLogPath l)) = Some []"
  proof
    assume a: "r = None \<and> (Compress (config l) \<longrightarrow> \<not> fails e OpRemove (getCurrentLogPath l))"
    with rr fresh have r0: "r0 = None" and gone: "lookup wx (getCurrentLogPath l1) = None"
      using cur by auto
    note ok = openLogFile_ok[OF o[unfolded r0]]
    from os_OpenFile_ok(3)[OF ok(1)] ok(5) gone cur
    show "currentSize l' = 0 \<and> map_option content (lookup w' (getCurrentLogPath l)) = Some []"
      by simp
  qed
qed

lemma rotation_currentSize_p1:
  assumes rot: "rotateFile_p1 e l w = (r, l', w')"
  shows "\<not> fails e OpStat (getCurrentLogPath l)
         \<longrightarrow> currentSize l' = (case lookup w' (getCurrentLogPath l) of
                                  None \<Rightarrow> 0 | Some n \<Rightarrow> of_nat (length (content n)))"
    and "r = None \<and> (Compress (config l) \<longrightarrow> \<not> fails e OpRemove (getCurrentLogPath l))
         \<longrightarrow> currentSize l' = 0
             \<and> map_option content (lookup w' (getCurrentLogPath l)) = Some []"
proof -
  from rotateFile_p1_reopens[OF rot] obtain lx wx r0 where
    o: "openLogFile_p1 e lx wx = (r0, l', w')"
    and cur: "getCurrentLogPath lx = getCurrentLogPath l"
    and nofile: "file_h lx = None"
    and rr: "r = None \<longrightarrow> r0 = None"
    and fresh: "r = None \<and> (Compress (config l) \<longrightarrow> \<not> fails e OpRemove (getCurrentLogPath l))
                \<longrightarrow> lookup wx (getCurrentLogPath l) = None"
    by blast
  from openLogFile_p1_size[OF o] cur
  show "\<not> fails e OpStat (getCurrentLogPath l)
         \<longrightarrow> currentSize l' = (case lookup w' (getCurrentLogPath l) of
                                  None \<Rightarrow> 0 | Some n \<Rightarrow> of_nat (length (content n)))"
    by simp
  show "r = None \<and> (Compress (config l) \<longrightarrow> \<not> fails e OpRemove (getCurrentLogPath l))
         \<longrightarrow> currentSize l' = 0
             \<and> map_option content (lookup w' (getCurrentLogPath l)) = Some []"
  proof
    assume a: "r = None \<and> (Compress (config l) \<longrightarrow> \<not> fails e OpRemove (getCurrentLogPath l))"
    with fresh cur have gone: "lookup wx (getCurrentLogPath lx) = None" by simp
    from a rr have "r0 = None" by simp
    with o gone show "currentSize l' = 0
             \<and> map_option content (lookup w' (getCurrentLogPath l)) = Some []"
      using cur
      by (auto simp: openLogFile_p1_def os_Stat_def os_OpenFile_def file_Close_def lookup_def
          map_add_def split: sum.splits if_splits prod.splits option.splits)
  qed
qed



subsection \<open>What a rotation leaves untouched\<close>

lemma streams_eprint [simp]:
  "trace (eprint err w) = trace w" "stdout (eprint err w) = stdout w"
  by (simp_all add: eprint_def)

lemma streams_file_Write:
  "file_Write e f bs w = (r, w') \<Longrightarrow> trace w' = trace w \<and> stdout w' = stdout w"
  by (auto simp: file_Write_def append_to_def split: option.splits if_splits)

lemma streams_file_Close:
  "file_Close e f w = (r, w') \<Longrightarrow> trace w' = trace w \<and> stdout w' = stdout w"
  by (auto simp: file_Close_def split: option.splits if_splits)

lemma streams_bufio_Flush:
  "bufio_Flush e b w = (r, b', w') \<Longrightarrow> trace w' = trace w \<and> stdout w' = stdout w"
  by (auto simp: bufio_Flush_def split: option.splits if_splits prod.splits
      dest: streams_file_Write)

lemma streams_flushForRotation:
  "flushForRotation e l w = (l1, w1) \<Longrightarrow> trace w1 = trace w \<and> stdout w1 = stdout w"
  by (auto simp: flushForRotation_def split: option.splits prod.splits
      dest: streams_bufio_Flush)

lemma streams_closeForRotation [simp]:
  "trace (closeForRotation e l w) = trace w" "stdout (closeForRotation e l w) = stdout w"
  by (auto simp: closeForRotation_def split: option.splits prod.splits
      dest: streams_file_Close)

lemma streams_compressFile:
  "compressFile e s d w = (r, w') \<Longrightarrow> trace w' = trace w \<and> stdout w' = stdout w"
  by (auto simp: compressFile_def split: option.splits if_splits)

lemma streams_os_Rename:
  "os_Rename e p q w = (r, w') \<Longrightarrow> trace w' = trace w \<and> stdout w' = stdout w"
  by (auto simp: os_Rename_def split: option.splits if_splits)

lemma streams_os_Remove:
  "os_Remove e p w = (r, w') \<Longrightarrow> trace w' = trace w \<and> stdout w' = stdout w"
  by (auto simp: os_Remove_def split: option.splits if_splits)

lemma streams_os_OpenFile:
  "os_OpenFile e p w = (r, w') \<Longrightarrow> trace w' = trace w \<and> stdout w' = stdout w"
  by (auto simp: os_OpenFile_def split: option.splits if_splits)

lemma streams_openLogFile:
  "openLogFile e l w = (r, l', w') \<Longrightarrow> trace w' = trace w \<and> stdout w' = stdout w"
  by (auto simp: openLogFile_def split: sum.splits if_splits prod.splits
      dest: streams_os_OpenFile)

lemma streams_rotateFile:
  assumes "rotateFile e l w = (r, l', w')"
  shows "trace w' = trace w @ [Rotation] \<and> stdout w' = stdout w"
proof -
  obtain l1 w1 where fl: "flushForRotation e l (w\<lparr>trace := trace w @ [Rotation]\<rparr>) = (l1, w1)"
    by (metis prod.exhaust)
  from streams_flushForRotation[OF fl]
  have s1: "trace w1 = trace w @ [Rotation]" "stdout w1 = stdout w" by simp_all
  from assms fl s1 show ?thesis
    by (auto simp: rotateFile_def split: if_splits prod.splits option.splits
        dest!: streams_compressFile streams_os_Rename streams_os_Remove streams_openLogFile)
qed


lemma compressFile_ok:
  assumes "compressFile e s d w = (None, w')" and "\<not> fails e OpGzClose d"
    and "lookup w s = Some n"
  shows "w' = w\<lparr>disk := put d \<lparr>isDir = False, content = gzip e (content n), modTime = now e\<rparr> (disk w)\<rparr>"
  using assms by (auto simp: compressFile_def split: if_splits)

lemma compressed_rotation_bufio:
  assumes c: "Compress (config l)"
    and rot: "rotateFile e l w = (None, l', w')"
    and gz: "\<not> fails e OpGzClose (getBackupLogPath e l)"
    and fl: "flushForRotation e l (w\<lparr>trace := trace w @ [Rotation]\<rparr>) = (l1, w1)"
    and n: "lookup (closeForRotation e l1 w1) (getCurrentLogPath l) = Some n"
  shows "lookup w' (getBackupLogPath e l)
           = Some \<lparr>isDir = False, content = gzip e (content n), modTime = now e\<rparr>
         \<and> (if fails e OpRemove (getCurrentLogPath l)
            then lookup w' (getCurrentLogPath l) = Some n
                 \<and> currentSize l' = of_nat (length (content n))
            else map_option content (lookup w' (getCurrentLogPath l)) = Some []
                 \<and> currentSize l' = 0)"
proof -
  define w2 where "w2 = closeForRotation e l1 w1"
  note fr = flushForRotation_frame[OF fl]
  have cur: "getCurrentLogPath l1 = getCurrentLogPath l"
    by (simp add: getCurrentLogPath_def fr)
  have bak: "getBackupLogPath e l1 = getBackupLogPath e l"
    by (simp add: getBackupLogPath_def fr)
  have neq: "getBackupLogPath e l \<noteq> getCurrentLogPath l"
    by (rule backup_neq_current)
  obtain rc wc where cf: "compressFile e (getCurrentLogPath l) (getBackupLogPath e l) w2 = (rc, wc)"
    by (metis prod.exhaust)
  have rc: "rc = None"
    using rot fl cf c fr cur bak by (auto simp: rotateFile_def w2_def split: prod.splits option.splits)
  from n have n2: "lookup w2 (getCurrentLogPath l) = Some n" by (simp add: w2_def)
  note wc = compressFile_ok[OF cf[unfolded rc] gz n2]
  have lc_b: "lookup wc (getBackupLogPath e l)
                = Some \<lparr>isDir = False, content = gzip e (content n), modTime = now e\<rparr>"
    and lc_c: "lookup wc (getCurrentLogPath l) = Some n"
    using neq n2 by (simp_all add: wc lookup_def map_of_put)
  obtain rm w4 where rmv: "os_Remove e (getCurrentLogPath l) wc = (rm, w4)"
    by (metis prod.exhaust)
  define wx where "wx = (case rm of None \<Rightarrow> w4
     | Some rerr \<Rightarrow> eprint (Errorf ''Warning: failed to remove original log file after compression'' rerr) w4)"
  have op: "openLogFile e l1 wx = (None, l', w')"
    using rot fl cf rc rmv c fr cur bak
    by (auto simp: rotateFile_def w2_def wx_def split: prod.splits option.splits)
  have wx_b: "lookup wx (getBackupLogPath e l)
                = Some \<lparr>isDir = False, content = gzip e (content n), modTime = now e\<rparr>"
    using rmv lc_b neq
    by (auto simp: wx_def os_Remove_def lookup_def map_of_unlink split: option.splits if_splits)
  have wx_c: "lookup wx (getCurrentLogPath l)
                = (if fails e OpRemove (getCurrentLogPath l) then Some n else None)"
    using rmv lc_c
    by (auto simp: wx_def os_Remove_def lookup_def map_of_unlink split: option.splits if_splits)
  note ok = openLogFile_ok[OF op]
  note oo = os_OpenFile_ok[OF ok(1)]
  from oo(4)[of "getBackupLogPath e l"] neq cur wx_b
  have A: "lookup w' (getBackupLogPath e l)
           = Some \<lparr>isDir = False, content = gzip e (content n), modTime = now e\<rparr>"
    by simp
  from oo(3) ok(5) cur wx_c
  have B: "if fails e OpRemove (getCurrentLogPath l)
            then lookup w' (getCurrentLogPath l) = Some n
                 \<and> currentSize l' = of_nat (length (content n))
            else map_option content (lookup w' (getCurrentLogPath l)) = Some []
                 \<and> currentSize l' = 0"
    by (simp split: if_splits)
  from A B show ?thesis by blast
qed

subsection \<open>When a write rotates\<close>

lemma trace_bufio_loop:
  "bufio_loop e b s nn w = (x, w') \<Longrightarrow> trace w' = trace w"
proof (induction e b s nn w rule: bufio_loop.induct)
  case (1 e b s nn w)
  show ?case
  proof (cases "bufSize - length (pending b) < length s \<and> werr b = None")
    case False
    with "1.prems" show ?thesis by (auto simp add: bufio_loop.simps)
  next
    case True
    note c = True
    show ?thesis
    proof (cases "pending b = []")
      case True
      obtain n err w1 where fw: "file_Write e (wfd b) s w = ((n, err), w1)"
        by (metis prod.exhaust)
      have "bufio_loop e (b\<lparr>werr := err\<rparr>) (drop n s) (nn + n) w1 = (x, w')"
        using "1.prems" c True fw by (simp add: bufio_loop.simps[of e b s nn w])
      from "1.IH"(1)[OF c True fw[symmetric] refl this] streams_file_Write[OF fw]
      show ?thesis by simp
    next
      case False
      obtain ferr b1 w1 where
        fl: "bufio_Flush e
               (b\<lparr>pending := pending b @ take (bufSize - length (pending b)) s\<rparr>) w
             = (ferr, b1, w1)"
        by (metis prod.exhaust)
      have "bufio_loop e b1 (drop (bufSize - length (pending b)) s)
              (nn + min (bufSize - length (pending b)) (length s)) w1 = (x, w')"
        using "1.prems" c False fl by (simp add: bufio_loop.simps[of e b s nn w])
      from "1.IH"(2)[OF c False fl[symmetric] refl this] streams_bufio_Flush[OF fl]
      show ?thesis by simp
    qed
  qed
qed

lemma trace_bufio_WriteString:
  "bufio_WriteString e b s w = (r, b', w') \<Longrightarrow> trace w' = trace w"
  by (auto simp: bufio_WriteString_def split: prod.splits option.splits
      dest: trace_bufio_loop)

lemma trace_sink_Write: "sink_Write e s bs w = (r, w') \<Longrightarrow> trace w' = trace w"
  by (auto simp: sink_Write_def deliver_def split: if_splits sinkref.splits)

lemma trace_fmt_Print [simp]: "trace (fmt_Print e bs w) = trace w"
  by (metis fmt_Print_def prod.collapse trace_sink_Write)

lemma trace_handleError [simp]: "trace (handleError l err w) = trace w"
  by (simp add: handleError_def)

lemma trace_writeBuffered:
  "\<exists>ws. trace (snd (writeBuffered e l m w)) = trace w @ ws \<and> Rotation \<notin> set ws"
  by (auto simp: writeBuffered_def split: option.splits prod.splits
      dest: trace_bufio_WriteString)

lemma trace_multi_Write:
  "multi_Write e m p w = (r, m', w') \<Longrightarrow> trace w' = trace w"
  by (auto simp: multi_Write_def split: prod.splits option.splits if_splits
      dest!: trace_bufio_WriteString trace_sink_Write)

lemma trace_writeOut_mw:
  "\<exists>ws. trace (snd (writeOut_mw e l m w)) = trace w @ ws \<and> Rotation \<notin> set ws"
  by (auto simp: writeOut_mw_def split: option.splits prod.splits
      dest: trace_multi_Write)

lemma trace_openLogFile_mw:
  "openLogFile_mw e l w = (r, l', w') \<Longrightarrow> trace w' = trace w"
  by (auto simp: openLogFile_mw_def split: sum.splits if_splits prod.splits
      dest: streams_os_OpenFile)

lemma trace_closeForRotation_mw [simp]:
  "trace (closeForRotation_mw e l w) = trace w"
  by (auto simp: closeForRotation_mw_def split: option.splits prod.splits
      dest: streams_file_Close)

lemma trace_rotateFile_mw:
  "rotateFile_mw e l w = (r, l', w') \<Longrightarrow> trace w' = trace w @ [Rotation]"
  by (auto simp: rotateFile_mw_def split: if_splits prod.splits option.splits
      dest!: streams_compressFile streams_os_Rename streams_os_Remove trace_openLogFile_mw)

text \<open>
  In both iterations of \<^verbatim>\<open>logr.go\<close> a write at or above the configured level adds to
  the trace one \<open>Rotation\<close>, ahead of anything else, exactly when \<^verbatim>\<open>shouldRotate\<close>
  holds, and \<^verbatim>\<open>shouldRotate\<close> holds exactly when \<open>MaxSize\<close> is positive and less than
  \<open>currentSize\<close> plus the record's length (in 64-bit arithmetic, which is the sum of the
  two numbers as long as it stays below \<open>2 ^ 63\<close>).
\<close>

lemma writeLog_rotates_iff:
  assumes "\<not> level < Level (config l)"
  shows "\<exists>ws. trace (snd (writeLog e l level message w))
                = trace w @ (if shouldRotate l (length (formatLine e level message))
                             then Rotation # ws else ws)
              \<and> Rotation \<notin> set ws"
proof (cases "shouldRotate l (length (formatLine e level message))")
  case False
  with assms trace_writeBuffered[of e l "formatLine e level message" w] show ?thesis
    by (simp add: writeLog_def)
next
  case True
  obtain r l1 w1 where rot: "rotateFile e l w = (r, l1, w1)"
    by (metis prod.exhaust)
  note t = streams_rotateFile[OF rot]
  show ?thesis
  proof (cases r)
    case (Some err)
    with assms True rot t show ?thesis
      by (intro exI[of _ "[]"]) (simp add: writeLog_def)
  next
    case None
    from trace_writeBuffered[of e l1 "formatLine e level message" w1] obtain ws where
      "trace (snd (writeBuffered e l1 (formatLine e level message) w1)) = trace w1 @ ws"
      "Rotation \<notin> set ws"
      by blast
    with assms True rot None t show ?thesis
      by (intro exI[of _ ws]) (simp add: writeLog_def)
  qed
qed

lemma writeLog_mw_rotates_iff:
  assumes "\<not> level < Level (config l)" and "renderRecord e l level message = Inr buf"
  shows "\<exists>ws. trace (snd (writeLog_mw e l level message w))
                = trace w @ (if shouldRotate l (length buf) then Rotation # ws else ws)
              \<and> Rotation \<notin> set ws"
proof (cases "shouldRotate l (length buf)")
  case False
  with assms trace_writeOut_mw[of e l buf w] show ?thesis
    by (simp add: writeLog_mw_def)
next
  case True
  obtain r l1 w1 where rot: "rotateFile_mw e l w = (r, l1, w1)"
    by (metis prod.exhaust)
  note t = trace_rotateFile_mw[OF rot]
  show ?thesis
  proof (cases r)
    case (Some err)
    with assms True rot t show ?thesis
      by (intro exI[of _ "[]"]) (simp add: writeLog_mw_def)
  next
    case None
    from trace_writeOut_mw[of e l1 buf w1] obtain ws where
      "trace (snd (writeOut_mw e l1 buf w1)) = trace w1 @ ws" "Rotation \<notin> set ws"
      by blast
    with assms True rot None t show ?thesis
      by (intro exI[of _ ws]) (simp add: writeLog_mw_def)
  qed
qed

lemma sint_add_nat:
  fixes a :: "64 word"
  assumes "0 \<le> sint a" and "sint a + int n < 2 ^ 63"
  shows "sint (a + of_nat n) = sint a + int n"
proof -
  have n: "sint (of_nat n :: 64 word) = signed_take_bit 63 (int n)"
    using sint_sbintrunc'[where 'a = 64, of "int n"] by simp
  have "signed_take_bit (63::nat) (int n) = int n"
    using assms by (intro signed_take_bit_int_eq_self) auto
  with n have "sint (a + of_nat n) = signed_take_bit 63 (sint a + int n)"
    by (simp add: sint_word_add)
  also have "\<dots> = sint a + int n"
    using assms by (intro signed_take_bit_int_eq_self) auto
  finally show ?thesis .
qed

lemma shouldRotate_iff:
  assumes "0 \<le> sint (currentSize l)" and "sint (currentSize l) + int n < 2 ^ 63"
  shows "shouldRotate l n \<longleftrightarrow>
           0 < sint (MaxSize (config l))
           \<and> sint (MaxSize (config l)) < sint (currentSize l) + int n"
  using sint_add_nat[OF assms] by (simp add: shouldRotate_def word_sless_alt)

lemma shouldRotate_unlimited: "sint (MaxSize (config l)) \<le> 0 \<Longrightarrow> \<not> shouldRotate l n"
  by (simp add: shouldRotate_def word_sless_alt)

subsection \<open>Retention\<close>

lemma cleanupLoop_keeps:
  assumes rep: "\<And>p err w. disk (rep p err w) = disk w"
  shows "cleanupLoop rep e c i fs (w, d) = (w', d') \<Longrightarrow>
         lookup w' (FileName c @ ''.log'') = lookup w (FileName c @ ''.log'')"
proof (induction fs arbitrary: i w d)
  case Nil
  then show ?case by simp
next
  case (Cons f fs)
  show ?case
  proof (cases "fiName f = FileName c @ ''.log''")
    case True
    with Cons show ?thesis by simp
  next
    case False
    obtain r w1 where rm: "os_Remove e (fiName f) w = (r, w1)"
      by (cases "os_Remove e (fiName f) w")
    have k: "lookup w1 (FileName c @ ''.log'') = lookup w (FileName c @ ''.log'')"
      using os_Remove_other[OF rm] False by metis
    have k2: "\<And>err. lookup (rep (fiName f) err w1) (FileName c @ ''.log'')
                = lookup w (FileName c @ ''.log'')"
      using k rep by (simp add: lookup_def)
    show ?thesis
      using Cons.prems Cons.IH False rm k k2
      by (auto split: if_splits option.splits)
  qed
qed

text \<open>
  C6.  \<^verbatim>\<open>cleanup\<close> never deletes the file named \<^verbatim>\<open><FileName>.log\<close>: in each of the three
  iterations, for every environment, configuration and directory, the entry of that name
  is after the call what it was before, wherever it sorts, however old it is and whatever
  \<open>MaxBackups\<close> is.
\<close>

theorem cleanup_keeps_active:
  "lookup (cleanup e l w) (FileName (config l) @ ''.log'')
     = lookup w (FileName (config l) @ ''.log'')
   \<and> lookup (snd (cleanup_mw e l w)) (FileName (config l) @ ''.log'')
     = lookup w (FileName (config l) @ ''.log'')
   \<and> lookup (cleanup_p1 e l w) (FileName (config l) @ ''.log'')
     = lookup w (FileName (config l) @ ''.log'')"
proof (intro conjI)
  show "lookup (cleanup e l w) (FileName (config l) @ ''.log'')
          = lookup w (FileName (config l) @ ''.log'')"
    by (auto simp: cleanup_def split: sum.splits prod.splits
        dest!: cleanupLoop_keeps[rotated])
  show "lookup (snd (cleanup_mw e l w)) (FileName (config l) @ ''.log'')
          = lookup w (FileName (config l) @ ''.log'')"
    by (auto simp: cleanup_mw_def split: sum.splits prod.splits
        dest!: cleanupLoop_keeps[rotated])
  show "lookup (cleanup_p1 e l w) (FileName (config l) @ ''.log'')
          = lookup w (FileName (config l) @ ''.log'')"
    by (auto simp: cleanup_p1_def split: sum.splits prod.splits
        dest!: cleanupLoop_keeps[rotated])
qed

text \<open>
  C3.  The index compared with \<open>MaxBackups\<close> is the position in the whole sorted list,
  the active file included.  With \<open>MaxBackups = 2\<close>, no age limit, the active file newest
  and two archives, the older archive stands at index 2 and is deleted, although it is
  only the second of the files that are not active: one archive is kept, not two.  The
  three iterations agree.
\<close>

theorem cleanup_counts_active_file:
  "map fst (disk (cleanup env0 lg_keep2 w_archives)) = [''app.log'', ''app_1.log'']
   \<and> map fst (disk (snd (cleanup_mw env0 lg_keep2 w_archives))) = [''app.log'', ''app_1.log'']
   \<and> map fst (disk (cleanup_p1 env0 lg_keep2 w_archives)) = [''app.log'', ''app_1.log'']"
  by (simp add: cleanup_def cleanup_mw_def cleanup_p1_def getLogFiles_def os_ReadDir_def env0_def
      lg_keep2_def
      cfg_keep2_def w_archives_def isLogName_def HasPrefix_def HasSuffix_def sortNewestFirst_def
      os_Remove_def lookup_def unlink_def time_Sub_def maxDuration_def INFO_def DEBUG_def
      fmt_Print_def sink_Write_def deliver_def sinkName_def)

subsection \<open>Evaluation of concrete calls\<close>

lemmas level_defs = DEBUG_def INFO_def WARN_def ERROR_def FATAL_def

lemmas os_defs =
  file_Sync_def file_Close_def file_Write_def os_Rename_def os_Remove_def os_Stat_def
  os_OpenFile_def lookup_def put_def unlink_def append_to_def eprint_def handleError_def
  sink_Write_def deliver_def sinkName_def fmt_Print_def

lemmas bufio_defs = bufio_Flush_def bufio_WriteString_def bufio_loop.simps bufSize_def

lemmas path_defs =
  getCurrentLogPath_def getBackupLogPath_def formatLine_def newline_def LogLevel_String_def

text \<open>
  C1.  In \<^verbatim>\<open>unnamed/part_001\<close>, \<^verbatim>\<open>shouldRotate\<close> lacks the test \<^verbatim>\<open>MaxSize > 0\<close>: with
  \<open>MaxSize = 0\<close> a record of 36 bytes written at \<open>INFO\<close> rotates the file first.  The
  trace shows the rotation before the write, and the directory the archive it made.
\<close>

theorem writeLog_p1_unlimited_rotates:
  "trace (snd (writeLog_p1 env0 lg_nolimit INFO ''hi'' w_open))
     = [Rotation, Synced 0, Wrote 36]
   \<and> map fst (disk (snd (writeLog_p1 env0 lg_nolimit INFO ''hi'' w_open)))
     = [''app_20240101_000000.log'', ''app.log'']"
  by (simp add: writeLog_p1_def shouldRotate_p1_def rotateFile_p1_def closeForRotation_p1_def
      openLogFile_p1_def writeFile_p1_def word_sless_alt os_defs path_defs level_defs
      env0_def lg_nolimit_def cfg_plain_def w_open_def)

text \<open>
  C2.  \<^verbatim>\<open>Close\<close> of the bufio iteration drops the errors of \<^verbatim>\<open>Flush\<close> and \<^verbatim>\<open>Sync\<close>:
  when the flush fails it returns \<^verbatim>\<open>nil\<close> and the buffered \<open>xyz\<close> never reaches the file,
  where \<^verbatim>\<open>Sync\<close> on the same state returns the error.  \<^verbatim>\<open>Close\<close> of the MultiWriter
  iteration neither flushes nor syncs: with no failure at all the buffered \<open>xyz\<close> is lost
  and no \<^verbatim>\<open>Sync\<close> is made.  The last two conjuncts show the bufio iteration when
  nothing fails.
\<close>

theorem Close_drops_errors:
  "fst (Close env_write_fails lg_buffered w_open) = Return None
   \<and> fst (Sync env_write_fails lg_buffered w_open) = Some (ErrIO OpWrite)
   \<and> map (content \<circ> snd) (disk (snd (snd (Close env_write_fails lg_buffered w_open))))
       = [''old'']
   \<and> fst (Close_mw env0 lg_buffered w_open) = Return None
   \<and> map (content \<circ> snd) (disk (snd (snd (Close_mw env0 lg_buffered w_open)))) = [''old'']
   \<and> trace (snd (snd (Close_mw env0 lg_buffered w_open))) = []
   \<and> map (content \<circ> snd) (disk (snd (snd (Close env0 lg_buffered w_open)))) = [''oldxyz'']
   \<and> trace (snd (snd (Close env0 lg_buffered w_open))) = [Synced 0]"
  by (simp add: Close_def Close_mw_def close_mw_def Sync_def os_defs bufio_defs
      env_write_fails_def env0_def lg_buffered_def cfg_plain_def w_open_def)

text \<open>
  C4.  In the MultiWriter iteration a failing \<open>Output\<close> makes \<^verbatim>\<open>l.out.Write\<close> return an
  error after the file's writer has taken the record: the error is reported, the record
  is in the primary buffer, and \<open>currentSize\<close> is not incremented (it is, by 36, when
  the sink works).  In the bufio iteration a failing stdout leaves the primary write and
  \<open>currentSize\<close> alone, and nothing is reported.
\<close>

theorem sink_failure_skips_accounting:
  "map_option (pending \<circ> fileWriter)
       (out (fst (writeLog_mw env_sink_fails lg_output INFO ''hi'' w_open)))
     = Some (formatLine env_sink_fails INFO ''hi'')
   \<and> currentSize (fst (writeLog_mw env_sink_fails lg_output INFO ''hi'' w_open))
     = currentSize lg_output
   \<and> stderr (snd (writeLog_mw env_sink_fails lg_output INFO ''hi'' w_open))
     = [Errorf ''logr error'' (Errorf ''failed to write to log output'' (ErrIO OpSink))]
   \<and> currentSize (fst (writeLog_mw env0 lg_output INFO ''hi'' w_open))
     = currentSize lg_output + 36
   \<and> currentSize (fst (writeLog env_sink_fails lg_stdout INFO ''hi'' w_open))
     = currentSize lg_stdout + 36
   \<and> stderr (snd (writeLog env_sink_fails lg_stdout INFO ''hi'' w_open)) = []"
  by (simp add: writeLog_mw_def writeOut_mw_def multi_Write_def renderRecord_def
      shouldRotate_def word_sless_alt writeLog_def writeBuffered_def os_defs bufio_defs
      path_defs level_defs env_sink_fails_def env0_def lg_output_def lg_stdout_def
      cfg_plain_def w_open_def)

subsection \<open>Writes and rotation\<close>

lemmas rot_defs =
  rotateFile_def flushForRotation_def closeForRotation_def openLogFile_def compressFile_def

lemmas rot_p1_defs =
  rotateFile_p1_def closeForRotation_p1_def openLogFile_p1_def compressFile_p1_def





text \<open>
  C7, as the code has it.  After \<^verbatim>\<open>rotateFile\<close>, on its successful path and on its
  recovery path alike, if \<^verbatim>\<open>os.Stat\<close> does not fail on the canonical path (it may report
  that there is no file), \<open>currentSize\<close> is the size of the file at the canonical path,
  and 0 if there is none.  If it fails, \<^verbatim>\<open>rotateFile\<close> of \<^verbatim>\<open>logr.go\<close> returns an error and
  leaves \<open>currentSize\<close> as it was.  After a rotation that returns no error and has moved
  the old file away, a fresh, empty file is there and \<open>currentSize\<close> is 0.  The second
  conjunct is \<^verbatim>\<open>unnamed/part_001\<close>; it says nothing of what that iteration does when
  \<^verbatim>\<open>os.Stat\<close> fails.
\<close>

theorem rotation_resets_currentSize:
  "(rotateFile e l w = (r, l', w')
    \<longrightarrow> (if fails e OpStat (getCurrentLogPath l)
         then r \<noteq> None \<and> currentSize l' = currentSize l
         else currentSize l' = (case lookup w' (getCurrentLogPath l) of
                                  None \<Rightarrow> 0 | Some n \<Rightarrow> of_nat (length (content n))))
        \<and> (r = None \<and> (Compress (config l) \<longrightarrow> \<not> fails e OpRemove (getCurrentLogPath l))
             \<longrightarrow> currentSize l' = 0
                 \<and> map_option content (lookup w' (getCurrentLogPath l)) = Some []))
   \<and> (rotateFile_p1 e l w = (r, l', w')
    \<longrightarrow> (\<not> fails e OpStat (getCurrentLogPath l)
          \<longrightarrow> currentSize l' = (case lookup w' (getCurrentLogPath l) of
                                   None \<Rightarrow> 0 | Some n \<Rightarrow> of_nat (length (content n))))
        \<and> (r = None \<and> (Compress (config l) \<longrightarrow> \<not> fails e OpRemove (getCurrentLogPath l))
             \<longrightarrow> currentSize l' = 0
                 \<and> map_option content (lookup w' (getCurrentLogPath l)) = Some []))"
  using rotation_currentSize_bufio[of e l w r l' w'] rotation_currentSize_p1[of e l w r l' w']
  by blast

theorem rotation_resets_currentSize_witness:
  "currentSize (fst (snd (rotateFile env0 lg_small w_open))) = 0
   \<and> map_option content (lookup (snd (snd (rotateFile env0 lg_small w_open))) ''app.log'')
       = Some []
   \<and> currentSize (fst (snd (rotateFile env_rename_fails lg_stuck_small w_open))) = 3
   \<and> currentSize (fst (snd (rotateFile_p1 env0 lg_small_p1 w_open))) = 0
   \<and> currentSize (fst (snd (rotateFile_p1 env_rename_fails lg_small_p1 w_open))) = 3"
proof -
  have p: "getCurrentLogPath lg_small = ''app.log''"
    "getCurrentLogPath lg_stuck_small = ''app.log''"
    "getCurrentLogPath lg_small_p1 = ''app.log''"
    by (simp_all add: getCurrentLogPath_def lg_small_def lg_stuck_small_def lg_small_p1_def
        cfg_plain_def)
  have c: "\<not> Compress (config lg_small)" "\<not> Compress (config lg_small_p1)"
    by (simp_all add: lg_small_def lg_small_p1_def cfg_plain_def)
  have st: "\<not> fails env0 OpStat ''app.log''" "\<not> fails env_rename_fails OpStat ''app.log''"
    by (simp_all add: env_rename_fails_def env0_def)
  have "fst (rotateFile env0 lg_small w_open) = None"
    by (simp add: rot_defs os_defs bufio_defs path_defs lg_small_def cfg_plain_def env0_def
        w_open_def)
  then have r1: "rotateFile env0 lg_small w_open
          = (None, fst (snd (rotateFile env0 lg_small w_open)),
             snd (snd (rotateFile env0 lg_small w_open)))"
    by (metis prod.collapse)
  have r2: "rotateFile env_rename_fails lg_stuck_small w_open
          = (fst (rotateFile env_rename_fails lg_stuck_small w_open),
             fst (snd (rotateFile env_rename_fails lg_stuck_small w_open)),
             snd (snd (rotateFile env_rename_fails lg_stuck_small w_open)))"
    by simp
  have k2: "lookup (snd (snd (rotateFile env_rename_fails lg_stuck_small w_open))) ''app.log''
            = Some \<lparr>isDir = False, content = ''old'', modTime = 500\<rparr>"
    by (simp add: rot_defs os_defs bufio_defs path_defs lg_stuck_small_def lg_small_def
        cfg_plain_def env_rename_fails_def env0_def w_open_def)
  have "fst (rotateFile_p1 env0 lg_small_p1 w_open) = None"
    by (simp add: rot_p1_defs os_defs path_defs lg_small_def lg_small_p1_def cfg_plain_def
        env0_def w_open_def)
  then have r3: "rotateFile_p1 env0 lg_small_p1 w_open
          = (None, fst (snd (rotateFile_p1 env0 lg_small_p1 w_open)),
             snd (snd (rotateFile_p1 env0 lg_small_p1 w_open)))"
    by (metis prod.collapse)
  have r4: "rotateFile_p1 env_rename_fails lg_small_p1 w_open
          = (fst (rotateFile_p1 env_rename_fails lg_small_p1 w_open),
             fst (snd (rotateFile_p1 env_rename_fails lg_small_p1 w_open)),
             snd (snd (rotateFile_p1 env_rename_fails lg_small_p1 w_open)))"
    by simp
  have k4: "lookup (snd (snd (rotateFile_p1 env_rename_fails lg_small_p1 w_open))) ''app.log''
            = Some \<lparr>isDir = False, content = ''old'', modTime = 500\<rparr>"
    by (simp add: rot_p1_defs os_defs path_defs lg_small_def lg_small_p1_def cfg_plain_def
        env_rename_fails_def env0_def w_open_def)
  from rotation_resets_currentSize[of env0 lg_small w_open None
      "fst (snd (rotateFile env0 lg_small w_open))"
      "snd (snd (rotateFile env0 lg_small w_open))"] r1 p c
  have a: "currentSize (fst (snd (rotateFile env0 lg_small w_open))) = 0
      \<and> map_option content (lookup (snd (snd (rotateFile env0 lg_small w_open))) ''app.log'')
          = Some []"
    by simp
  from rotation_resets_currentSize[of env_rename_fails lg_stuck_small w_open
      "fst (rotateFile env_rename_fails lg_stuck_small w_open)"
      "fst (snd (rotateFile env_rename_fails lg_stuck_small w_open))"
      "snd (snd (rotateFile env_rename_fails lg_stuck_small w_open))"] r2 p st k2
  have b: "currentSize (fst (snd (rotateFile env_rename_fails lg_stuck_small w_open))) = 3"
    by simp
  from rotation_resets_currentSize[of env0 lg_small_p1 w_open None
      "fst (snd (rotateFile_p1 env0 lg_small_p1 w_open))"
      "snd (snd (rotateFile_p1 env0 lg_small_p1 w_open))"] r3 p c
  have d: "currentSize (fst (snd (rotateFile_p1 env0 lg_small_p1 w_open))) = 0"
    by simp
  from rotation_resets_currentSize[of env_rename_fails lg_small_p1 w_open
      "fst (rotateFile_p1 env_rename_fails lg_small_p1 w_open)"
      "fst (snd (rotateFile_p1 env_rename_fails lg_small_p1 w_open))"
      "snd (snd (rotateFile_p1 env_rename_fails lg_small_p1 w_open))"] r4 p st k4
  have f: "currentSize (fst (snd (rotateFile_p1 env_rename_fails lg_small_p1 w_open))) = 3"
    by simp
  from a b d f show ?thesis by blast
qed

text \<open>
  C7 as stated fails when \<^verbatim>\<open>os.Stat\<close> fails.  In \<^verbatim>\<open>unnamed/part_001\<close> any failure of
  \<^verbatim>\<open>os.Stat\<close> sets \<open>currentSize\<close> to 0: when the rename fails too, the original file
  of 3 bytes is reopened with \<open>currentSize = 0\<close>, and so it is after a compressing
  rotation that returns no error because only \<^verbatim>\<open>os.Remove\<close> failed.  In \<^verbatim>\<open>logr.go\<close>
  \<^verbatim>\<open>openLogFile\<close> returns the error of \<^verbatim>\<open>os.Stat\<close> before it touches \<open>currentSize\<close>: for
  the logger whose last flush failed it stays 6 over a file of 3 bytes.
\<close>

theorem rotation_stale_currentSize:
  "fst (rotateFile_p1 env_rename_stat_fail lg_small_p1 w_open)
     = Some (Errorf ''failed to rename log file'' (ErrIO OpRename))
   \<and> currentSize (fst (snd (rotateFile_p1 env_rename_stat_fail lg_small_p1 w_open))) = 0
   \<and> map_option content
       (lookup (snd (snd (rotateFile_p1 env_rename_stat_fail lg_small_p1 w_open))) ''app.log'')
     = Some ''old''
   \<and> file_h (fst (snd (rotateFile_p1 env_rename_stat_fail lg_small_p1 w_open))) = Some 1
   \<and> openf (snd (snd (rotateFile_p1 env_rename_stat_fail lg_small_p1 w_open))) 1
     = Some ''app.log''
   \<and> fst (rotateFile_p1 env_remove_stat_fail lg_gz_p1 w_open) = None
   \<and> currentSize (fst (snd (rotateFile_p1 env_remove_stat_fail lg_gz_p1 w_open))) = 0
   \<and> map_option content
       (lookup (snd (snd (rotateFile_p1 env_remove_stat_fail lg_gz_p1 w_open))) ''app.log'')
     = Some ''old''
   \<and> fst (rotateFile env_rename_stat_fail lg_stuck_small w_open)
     = Some (Errorf ''failed to rename log file'' (ErrIO OpRename))
   \<and> currentSize (fst (snd (rotateFile env_rename_stat_fail lg_stuck_small w_open))) = 6
   \<and> map_option content
       (lookup (snd (snd (rotateFile env_rename_stat_fail lg_stuck_small w_open))) ''app.log'')
     = Some ''old''"
  by (simp add: rot_defs rot_p1_defs os_defs bufio_defs path_defs lg_small_def lg_small_p1_def
      lg_gz_def lg_gz_p1_def lg_stuck_small_def cfg_plain_def env_rename_stat_fail_def
      env_remove_stat_fail_def env0_def w_open_def)

text \<open>
  C8, as the code has it.  A rotation with \<open>Compress\<close> that returns no error, and whose
  gzip stream was closed without error, leaves as the archive the gzip stream of exactly
  the bytes \<open>content n\<close> the active file held when it was closed for rotation
  (\<open>gzip e\<close> is the encoder run to its end).  The plain file is gone and a fresh, empty
  one is active, unless \<^verbatim>\<open>os.Remove\<close> failed: that is reported as a warning, the rotation
  still succeeds, and the old file stays the active segment with \<open>currentSize\<close> its size.
\<close>

theorem compressed_rotation_archive:
  "Compress (config l) \<and> rotateFile e l w = (None, l', w')
     \<and> \<not> fails e OpGzClose (getBackupLogPath e l)
     \<and> flushForRotation e l (w\<lparr>trace := trace w @ [Rotation]\<rparr>) = (l1, w1)
     \<and> lookup (closeForRotation e l1 w1) (getCurrentLogPath l) = Some n
   \<longrightarrow> lookup w' (getBackupLogPath e l)
         = Some \<lparr>isDir = False, content = gzip e (content n), modTime = now e\<rparr>
       \<and> (if fails e OpRemove (getCurrentLogPath l)
          then lookup w' (getCurrentLogPath l) = Some n
               \<and> currentSize l' = of_nat (length (content n))
          else map_option content (lookup w' (getCurrentLogPath l)) = Some []
               \<and> currentSize l' = 0)"
  using compressed_rotation_bufio[of l e w l' w' l1 w1 n] by blast

theorem compressed_rotation_archive_witness:
  "map_option content
       (lookup (snd (snd (rotateFile env0 lg_gz w_open))) ''app_20240101_000000.log.gz'')
     = Some ''GZold''
   \<and> map_option content (lookup (snd (snd (rotateFile env0 lg_gz w_open))) ''app.log'')
     = Some []
   \<and> currentSize (fst (snd (rotateFile env0 lg_gz w_open))) = 0"
proof -
  have p: "getCurrentLogPath lg_gz = ''app.log''"
    "getBackupLogPath env0 lg_gz = ''app_20240101_000000.log.gz''"
    by (simp_all add: path_defs lg_gz_def lg_small_def cfg_plain_def env0_def)
  have c: "Compress (config lg_gz)"
    by (simp add: lg_gz_def lg_small_def cfg_plain_def)
  have nf: "\<not> fails env0 OpGzClose ''app_20240101_000000.log.gz''"
    "\<not> fails env0 OpRemove ''app.log''" "gzip env0 ''old'' = ''GZold''"
    by (simp_all add: env0_def)
  have "fst (rotateFile env0 lg_gz w_open) = None"
    by (simp add: rot_defs os_defs bufio_defs path_defs lg_gz_def lg_small_def cfg_plain_def
        env0_def w_open_def)
  then have r: "rotateFile env0 lg_gz w_open
          = (None, fst (snd (rotateFile env0 lg_gz w_open)),
             snd (snd (rotateFile env0 lg_gz w_open)))"
    by (metis prod.collapse)
  have fl: "flushForRotation env0 lg_gz (w_open\<lparr>trace := trace w_open @ [Rotation]\<rparr>)
          = (lg_gz, w_open\<lparr>trace := trace w_open @ [Rotation]\<rparr>)"
    by (simp add: flushForRotation_def bufio_defs lg_gz_def lg_small_def)
  have n: "lookup (closeForRotation env0 lg_gz (w_open\<lparr>trace := trace w_open @ [Rotation]\<rparr>))
             ''app.log''
           = Some \<lparr>isDir = False, content = ''old'', modTime = 500\<rparr>"
    by (simp only: lookup_closeForRotation) (simp add: lookup_def w_open_def)
  from compressed_rotation_archive[of lg_gz env0 w_open
      "fst (snd (rotateFile env0 lg_gz w_open))" "snd (snd (rotateFile env0 lg_gz w_open))"
      lg_gz "w_open\<lparr>trace := trace w_open @ [Rotation]\<rparr>"
      "\<lparr>isDir = False, content = ''old'', modTime = 500\<rparr>"] c r fl n p nf
  show ?thesis by simp
qed

text \<open>
  C8 as stated fails in two ways.  When \<^verbatim>\<open>os.Remove\<close> fails, the rotation returns no
  error and the plain file is still there, with its old content, beside the archive.
  When the deferred \<^verbatim>\<open>gzipWriter.Close()\<close> fails, \<^verbatim>\<open>compressFile\<close> still returns
  \<^verbatim>\<open>nil\<close>: the rotation returns no error, the plain file is removed, and the archive is
  not the stream of \<open>old\<close> (here it is empty).
\<close>

theorem compressed_rotation_keeps_precursor:
  "fst (rotateFile env_remove_fails lg_gz w_open) = None
   \<and> map (\<lambda>(p, n). (p, content n)) (disk (snd (snd (rotateFile env_remove_fails lg_gz w_open))))
     = [(''app.log'', ''old''), (''app_20240101_000000.log.gz'', ''GZold'')]
   \<and> fst (rotateFile env_gzclose_fails lg_gz w_open) = None
   \<and> map (\<lambda>(p, n). (p, content n))
       (disk (snd (snd (rotateFile env_gzclose_fails lg_gz w_open))))
     = [(''app_20240101_000000.log.gz'', ''''), (''app.log'', '''')]"
  by (simp add: rot_defs os_defs bufio_defs path_defs lg_gz_def lg_small_def cfg_plain_def
      env_remove_fails_def env_gzclose_fails_def env0_def w_open_def)

text \<open>
  C9.  In the MultiWriter iteration the write that \<^verbatim>\<open>writeLog\<close> tests is
  \<^verbatim>\<open>l.out.Write\<close>, over the buffered file writer and the secondary output.  With a
  failing stdout the buffered writer takes all 36 bytes of the record without error, then
  stdout fails: the error is reported, the record is in the file's buffer, and
  \<open>currentSize\<close> stays 3, not incremented by the bytes written.  It becomes 39 when
  stdout works.
\<close>

theorem sink_failure_uncounted_write:
  "fst (bufio_WriteString env_sink_fails \<lparr>wfd = 0, pending = [], werr = None\<rparr>
          (formatLine env_sink_fails INFO ''hi'') w_open) = (36, None)
   \<and> map_option (pending \<circ> fileWriter)
       (out (fst (writeLog_mw env_sink_fails lg_mw_stdout INFO ''hi'' w_open)))
     = Some (formatLine env_sink_fails INFO ''hi'')
   \<and> currentSize (fst (writeLog_mw env_sink_fails lg_mw_stdout INFO ''hi'' w_open)) = 3
   \<and> stderr (snd (writeLog_mw env_sink_fails lg_mw_stdout INFO ''hi'' w_open))
     = [Errorf ''logr error'' (Errorf ''failed to write to log output'' (ErrIO OpSink))]
   \<and> currentSize (fst (writeLog_mw env0 lg_mw_stdout INFO ''hi'' w_open)) = 39"
  by (simp add: writeLog_mw_def writeOut_mw_def multi_Write_def renderRecord_def
      shouldRotate_def word_sless_alt os_defs bufio_defs
      path_defs level_defs env_sink_fails_def env0_def lg_mw_stdout_def
      cfg_plain_def w_open_def)


end
